theory Spec2Isabelle
  imports Main "HOL-Library.Word"
begin

unbundle bit_operations_syntax

section \<open>Data model\<close>

text \<open>
  Python \<open>bytes\<close> are lists of 8-bit values; indexing one yields an \<open>int\<close> in
  \<open>0..255\<close>, read here with \<open>unat\<close>. A \<open>Pubkey\<close> is 32 bytes, a \<open>Signature\<close> 64.
\<close>

type_synonym byte = "8 word"
type_synonym bytes = "byte list"
type_synonym pubkey = bytes
type_synonym signature = bytes

text \<open>
  Exceptions. The facilitator only ever reads \<open>str(e)\<close> of what it catches, so an
  exception is its class and its message.
\<close>

datatype exn =
  IndexError string | ValueError string | OverflowError string | LibraryError string

fun str_exn :: "exn \<Rightarrow> string" where
  "str_exn (IndexError m) = m"
| "str_exn (ValueError m) = m"
| "str_exn (OverflowError m) = m"
| "str_exn (LibraryError m) = m"

text \<open>The decoded transaction, as \<open>solders\<close> presents it.\<close>

record message_header =
  num_required_signatures :: byte
  num_readonly_signed_accounts :: byte
  num_readonly_unsigned_accounts :: byte

record compiled_instruction =
  program_id_index :: byte
  accounts :: bytes
  data :: bytes

record message =
  header :: message_header
  account_keys :: "pubkey list"
  recent_blockhash :: bytes
  instructions :: "compiled_instruction list"

record address_table_lookup =
  account_key :: pubkey
  writable_indexes :: bytes
  readonly_indexes :: bytes

record message_v0 = message +
  address_table_lookups :: "address_table_lookup list"

datatype versioned_message = LegacyMessage message | V0Message message_v0

record transaction =
  signatures :: "signature list"
  message :: message

record versioned_transaction =
  vsignatures :: "signature list"
  vmessage :: versioned_message

text \<open>\<open>types.py\<close>: the requirement, the request for one, and the responses.\<close>

record payment_requirements_extra =
  fee_payer :: string

record payment_requirements =
  scheme :: string
  network :: string
  max_amount_required :: string
  asset :: string
  pay_to :: string
  resource :: string
  description :: string
  mime_type :: string
  max_timeout_seconds :: int
  output_schema :: "string option"
  extra :: payment_requirements_extra


record generate_requirements_request =
  price :: string
  request_pay_to :: string
  request_resource :: string
  request_description :: string
  timeout_seconds :: int

record verify_response =
  is_valid :: bool
  invalid_reason :: "string option"

record settle_response =
  success :: bool
  error :: "string option"
  tx_hash :: "string option"
  sr_network :: "string option"
  payer :: "string option"

text \<open>\<open>config.py\<close>: the settings the facilitator reads.\<close>

record settings =
  solana_network :: string
  usdc_mint :: string
  usdc_decimals :: int
  max_compute_unit_price :: int

definition default_settings :: settings where
  "default_settings =
     \<lparr>solana_network = ''mainnet-beta'',
      usdc_mint = ''EPjFWdd5AufqSSqeM2qN1xzybapC8G4wEGGkZwyTDt1v'',
      usdc_decimals = 6,
      max_compute_unit_price = 5\<rparr>"

text \<open>
  A Python \<open>float\<close> is an IEEE 754 double: \<open>Finite m e\<close> stands for the value
  \<open>m * 2 ^ e\<close>; the sign of an infinity is \<open>True\<close> when negative.
\<close>

datatype pyfloat = Finite int int | Infinity bool | NaN

text \<open>
  The library calls whose code is outside the repository (\<open>base64\<close>, \<open>solders\<close>,
  and the parsers behind Python's \<open>int(s)\<close> and \<open>float(s)\<close>). They are parameters
  of the model: every theorem stated for a \<open>lib\<close> holds whatever these functions
  compute. Each returns \<open>Inl e\<close> where the library raises. The hash of a message and
  the signature of a key pair are parameters of their own, \<open>crypto\<close>: only \<open>settle\<close>
  calls them.
\<close>

record keypair =
  secret :: bytes
  pubkey :: pubkey

record lib =
  b64decode :: "string \<Rightarrow> exn + bytes"
  legacy_from_bytes :: "bytes \<Rightarrow> exn + transaction"
  versioned_from_bytes :: "bytes \<Rightarrow> exn + versioned_transaction"
  find_program_address :: "bytes list \<Rightarrow> pubkey \<Rightarrow> pubkey \<times> nat"
  py_int :: "string \<Rightarrow> exn + int"
  py_float :: "string \<Rightarrow> exn + pyfloat"
  message_bytes :: "message \<Rightarrow> bytes"

record crypto =
  message_hash :: "versioned_message \<Rightarrow> bytes"
  sign_message :: "keypair \<Rightarrow> bytes \<Rightarrow> signature"

section \<open>Python built-ins\<close>

text \<open>\<open>xs[i]\<close> on a list, for an index that is never negative.\<close>

definition list_index :: "'a list \<Rightarrow> nat \<Rightarrow> exn + 'a" where
  "list_index xs i =
     (if i < length xs then Inr (xs ! i) else Inl (IndexError ''list index out of range''))"

text \<open>\<open>str(n)\<close> for an integer: its decimal digits.\<close>

definition digit_char :: "nat \<Rightarrow> char" where
  "digit_char d = ''0123456789'' ! d"

fun str_nat :: "nat \<Rightarrow> string" where
  "str_nat n = (if n < 10 then [digit_char n] else str_nat (n div 10) @ [digit_char (n mod 10)])"

declare str_nat.simps [simp del]

definition str_int :: "int \<Rightarrow> string" where
  "str_int i = (if i < 0 then CHR ''-'' # str_nat (nat (- i)) else str_nat (nat i))"

text \<open>\<open>struct.unpack("<Q", b)[0]\<close>: eight bytes, little endian.\<close>

fun le_value :: "bytes \<Rightarrow> nat" where
  "le_value [] = 0"
| "le_value (b # bs) = unat b + 256 * le_value bs"

definition unpack_u64_le :: "bytes \<Rightarrow> exn + nat" where
  "unpack_u64_le b =
     (if length b = 8 then Inr (le_value b)
      else Inl (LibraryError ''unpack requires a buffer of 8 bytes''))"

text \<open>The slice \<open>b[i:j]\<close> for \<open>0 \<le> i \<le> j\<close>.\<close>

definition slice :: "'a list \<Rightarrow> nat \<Rightarrow> nat \<Rightarrow> 'a list" where
  "slice xs i j = take (j - i) (drop i xs)"

section \<open>Base58 and public keys\<close>

text \<open>
  The alphabet \<open>123456789ABCDEFGHJKLMNPQRSTUVWXYZabcdefghijkmnopqrstuvwxyz\<close>: the value
  of a character, from its code.
\<close>

definition b58_alphabet :: string where
  "b58_alphabet = ''123456789ABCDEFGHJKLMNPQRSTUVWXYZabcdefghijkmnopqrstuvwxyz''"

definition b58_digit :: "char \<Rightarrow> nat option" where
  "b58_digit c =
     (let n = (of_char c :: nat) in
      if 49 \<le> n \<and> n \<le> 57 then Some (n - 49)
      else if 65 \<le> n \<and> n \<le> 72 then Some (n - 56)
      else if 74 \<le> n \<and> n \<le> 78 then Some (n - 57)
      else if 80 \<le> n \<and> n \<le> 90 then Some (n - 58)
      else if 97 \<le> n \<and> n \<le> 107 then Some (n - 64)
      else if 109 \<le> n \<and> n \<le> 122 then Some (n - 65)
      else None)"

fun b58_number :: "string \<Rightarrow> nat \<Rightarrow> nat option" where
  "b58_number [] acc = Some acc"
| "b58_number (c # cs) acc =
     (case b58_digit c of
        None \<Rightarrow> None
      | Some d \<Rightarrow> b58_number cs (acc * 58 + d))"

fun be_bytes :: "nat \<Rightarrow> bytes" where
  "be_bytes n = (if n = 0 then [] else be_bytes (n div 256) @ [word_of_nat (n mod 256)])"

declare be_bytes.simps [simp del]

fun be_value :: "bytes \<Rightarrow> nat \<Rightarrow> nat" where
  "be_value [] acc = acc"
| "be_value (b # bs) acc = be_value bs (acc * 256 + unat b)"

definition b58decode :: "string \<Rightarrow> bytes option" where
  "b58decode s =
     (case b58_number s 0 of
        None \<Rightarrow> None
      | Some n \<Rightarrow> Some (replicate (length (takeWhile (\<lambda>c. c = CHR ''1'') s)) 0 @ be_bytes n))"

fun b58_digits :: "nat \<Rightarrow> string" where
  "b58_digits n = (if n = 0 then [] else b58_digits (n div 58) @ [b58_alphabet ! (n mod 58)])"

declare b58_digits.simps [simp del]

definition b58encode :: "bytes \<Rightarrow> string" where
  "b58encode b =
     replicate (length (takeWhile (\<lambda>x. x = 0) b)) (CHR ''1'') @ b58_digits (be_value b 0)"

text \<open>
  \<open>Pubkey.from_string\<close>: at most 44 characters of the base58 alphabet that decode to
  exactly 32 bytes; \<open>str(pubkey)\<close> is the base58 text.
\<close>

definition pubkey_from_string :: "string \<Rightarrow> exn + pubkey" where
  "pubkey_from_string s =
     (if length s > 44 then Inl (ValueError ''String is the wrong size'')
      else case b58decode s of
        None \<Rightarrow> Inl (ValueError ''Invalid Base58 string'')
      | Some b \<Rightarrow>
          if length b = 32 then Inr b else Inl (ValueError ''String is the wrong size''))"

definition str_pubkey :: "pubkey \<Rightarrow> string" where
  "str_pubkey k = b58encode k"

text \<open>The program ids of \<open>facilitator.py\<close>, as the 32 bytes their base58 text decodes to.\<close>

definition COMPUTE_BUDGET_PROGRAM :: pubkey where
  "COMPUTE_BUDGET_PROGRAM =
     [3, 6, 70, 111, 229, 33, 23, 50, 255, 236, 173, 186, 114, 195, 155, 231,
      188, 140, 229, 187, 197, 247, 18, 107, 44, 67, 155, 58, 64, 0, 0, 0]"

definition SPL_TOKEN_PROGRAM :: pubkey where
  "SPL_TOKEN_PROGRAM =
     [6, 221, 246, 225, 215, 101, 161, 147, 217, 203, 225, 70, 206, 235, 121, 172,
      28, 180, 133, 237, 95, 91, 55, 145, 58, 140, 245, 133, 126, 255, 0, 169]"

definition TOKEN_2022_PROGRAM :: pubkey where
  "TOKEN_2022_PROGRAM =
     [6, 221, 246, 225, 238, 117, 143, 222, 24, 66, 93, 188, 228, 108, 205, 218,
      182, 26, 252, 77, 131, 185, 13, 39, 254, 189, 249, 40, 216, 161, 139, 252]"

definition ASSOCIATED_TOKEN_PROGRAM :: pubkey where
  "ASSOCIATED_TOKEN_PROGRAM =
     [140, 151, 37, 143, 78, 36, 137, 241, 187, 61, 16, 41, 20, 142, 13, 131,
      11, 90, 19, 153, 218, 255, 16, 132, 4, 142, 123, 216, 219, 233, 248, 89]"

section \<open>The verifier\<close>

text \<open>
  Sequencing of calls that may raise: the first exception leaves, as it does from a
  Python block.
\<close>

definition exn_bind :: "exn + 'a \<Rightarrow> ('a \<Rightarrow> exn + 'b) \<Rightarrow> exn + 'b" where
  "exn_bind r f = (case r of Inl e \<Rightarrow> Inl e | Inr x \<Rightarrow> f x)"

text \<open>\<open>_is_compute_budget_instruction\<close>\<close>

definition is_compute_budget_instruction ::
  "compiled_instruction \<Rightarrow> pubkey list \<Rightarrow> nat \<Rightarrow> exn + bool" where
  "is_compute_budget_instruction instruction keys discriminator =
     exn_bind (list_index keys (unat (program_id_index instruction))) (\<lambda>program_id.
       if program_id \<noteq> COMPUTE_BUDGET_PROGRAM then Inr False
       else if length (data instruction) < 1 then Inr False
       else Inr (unat (data instruction ! 0) = discriminator))"

text \<open>\<open>_verify_compute_price\<close>\<close>

definition verify_compute_price ::
  "settings \<Rightarrow> compiled_instruction \<Rightarrow> exn + bool \<times> string option" where
  "verify_compute_price cfg instruction =
     (if length (data instruction) < 9
      then Inr (False, Some ''Invalid SetComputeUnitPrice instruction'')
      else
        exn_bind (unpack_u64_le (slice (data instruction) 1 9)) (\<lambda>price.
          let max_price = max_compute_unit_price cfg in
          if int price > max_price
          then Inr (False, Some (''Compute unit price '' @ str_int (int price) @
                                 '' exceeds max '' @ str_int max_price))
          else Inr (True, None)))"

text \<open>\<open>_get_associated_token_address\<close>\<close>

definition get_associated_token_address ::
  "lib \<Rightarrow> pubkey \<Rightarrow> pubkey \<Rightarrow> pubkey \<Rightarrow> pubkey" where
  "get_associated_token_address L owner mint token_program =
     (let seeds = [owner, token_program, mint] in
      fst (find_program_address L seeds ASSOCIATED_TOKEN_PROGRAM))"

text \<open>\<open>_verify_transfer_instruction\<close>\<close>

definition verify_transfer_instruction ::
  "lib \<Rightarrow> settings \<Rightarrow> compiled_instruction \<Rightarrow> pubkey list \<Rightarrow> payment_requirements \<Rightarrow>
   exn + bool \<times> string option" where
  "verify_transfer_instruction L cfg instruction keys requirements =
     exn_bind (list_index keys (unat (program_id_index instruction))) (\<lambda>program_id.
     if program_id \<notin> set [SPL_TOKEN_PROGRAM, TOKEN_2022_PROGRAM]
     then Inr (False, Some ''Third instruction must be SPL Token TransferChecked'')
     else if length (data instruction) < 1 \<or> unat (data instruction ! 0) \<noteq> 12
     then Inr (False, Some ''Expected TransferChecked instruction'')
     else if length (data instruction) < 10
     then Inr (False, Some ''Invalid TransferChecked data'')
     else
     exn_bind (unpack_u64_le (slice (data instruction) 1 9)) (\<lambda>amount.
     let decimals = unat (data instruction ! 9) in
     exn_bind (py_int L (max_amount_required requirements)) (\<lambda>required_amount.
     if int amount \<noteq> required_amount
     then Inr (False, Some (''Amount '' @ str_int (int amount) @
                            '' does not match required '' @ str_int required_amount))
     else if int decimals \<noteq> usdc_decimals cfg
     then Inr (False, Some (''Decimals '' @ str_int (int decimals) @
                            '' does not match expected '' @ str_int (usdc_decimals cfg)))
     else if length (accounts instruction) < 4
     then Inr (False, Some ''TransferChecked requires 4 accounts'')
     else
     exn_bind (list_index keys (unat (accounts instruction ! 1))) (\<lambda>mint.
     exn_bind (pubkey_from_string (asset requirements)) (\<lambda>expected_mint.
     if mint \<noteq> expected_mint
     then Inr (False, Some (''Mint '' @ str_pubkey mint @
                            '' does not match required '' @ str_pubkey expected_mint))
     else
     exn_bind (list_index keys (unat (accounts instruction ! 2))) (\<lambda>destination.
     exn_bind (pubkey_from_string (pay_to requirements)) (\<lambda>pay_to_key.
     let expected_ata = get_associated_token_address L pay_to_key expected_mint program_id in
     if destination \<noteq> expected_ata
     then Inr (False, Some (''Destination '' @ str_pubkey destination @
                            '' does not match expected ATA '' @ str_pubkey expected_ata))
     else Inr (True, None))))))))"

text \<open>
  The loop \<open>for idx in [0, 1]\<close> of \<open>verify\<close>, over its two variables
  \<open>compute_budget_count\<close> and \<open>price_instruction_idx\<close>.
\<close>

fun compute_budget_scan ::
  "compiled_instruction list \<Rightarrow> pubkey list \<Rightarrow> nat list \<Rightarrow> nat \<times> nat option \<Rightarrow>
   exn + nat \<times> nat option" where
  "compute_budget_scan ixs keys [] st = Inr st"
| "compute_budget_scan ixs keys (idx # rest) (compute_budget_count, price_instruction_idx) =
     exn_bind (list_index ixs idx) (\<lambda>ix.
     exn_bind (is_compute_budget_instruction ix keys 2) (\<lambda>is_limit.
       if is_limit
       then compute_budget_scan ixs keys rest (compute_budget_count + 1, price_instruction_idx)
       else
         exn_bind (is_compute_budget_instruction ix keys 3) (\<lambda>is_price.
           if is_price
           then compute_budget_scan ixs keys rest (compute_budget_count + 1, Some idx)
           else compute_budget_scan ixs keys rest
                  (compute_budget_count, price_instruction_idx))))"

text \<open>
  The two nested loops that look for the fee payer among the accounts of the
  instructions: \<open>True\<close> where the source returns its refusal.
\<close>

fun fee_payer_in_accounts :: "pubkey list \<Rightarrow> pubkey \<Rightarrow> bytes \<Rightarrow> exn + bool" where
  "fee_payer_in_accounts keys fee_payer_pubkey [] = Inr False"
| "fee_payer_in_accounts keys fee_payer_pubkey (account_idx # rest) =
     exn_bind (list_index keys (unat account_idx)) (\<lambda>k.
       if k = fee_payer_pubkey then Inr True
       else fee_payer_in_accounts keys fee_payer_pubkey rest)"

fun fee_payer_in_instructions ::
  "pubkey list \<Rightarrow> pubkey \<Rightarrow> compiled_instruction list \<Rightarrow> exn + bool" where
  "fee_payer_in_instructions keys fee_payer_pubkey [] = Inr False"
| "fee_payer_in_instructions keys fee_payer_pubkey (ix # rest) =
     exn_bind (fee_payer_in_accounts keys fee_payer_pubkey (accounts ix)) (\<lambda>found.
       if found then Inr True
       else fee_payer_in_instructions keys fee_payer_pubkey rest)"

definition invalid :: "string option \<Rightarrow> verify_response" where
  "invalid reason = \<lparr>is_valid = False, invalid_reason = reason\<rparr>"

definition valid :: verify_response where
  "valid = \<lparr>is_valid = True, invalid_reason = None\<rparr>"

text \<open>
  \<open>verify\<close> from the instruction count on (lines 116 to 166), on the instructions
  and the account keys of the decoded message.
\<close>

definition verify_message ::
  "lib \<Rightarrow> settings \<Rightarrow> compiled_instruction list \<Rightarrow> pubkey list \<Rightarrow> payment_requirements \<Rightarrow>
   exn + verify_response" where
  "verify_message L cfg ixs keys requirements =
     (if length ixs \<noteq> 3
      then Inr (invalid (Some (''Expected 3 instructions, got '' @ str_nat (length ixs))))
      else
     exn_bind (compute_budget_scan ixs keys [0, 1] (0, None))
       (\<lambda>(compute_budget_count, price_instruction_idx).
     if compute_budget_count \<noteq> 2
     then Inr (invalid (Some ''First 2 instructions must be ComputeBudget instructions''))
     else
     exn_bind (case price_instruction_idx of
                 None \<Rightarrow> Inr (True, None)
               | Some idx \<Rightarrow> exn_bind (list_index ixs idx) (verify_compute_price cfg))
       (\<lambda>(price_valid, price_reason).
     if \<not> price_valid then Inr (invalid price_reason)
     else
     exn_bind (list_index ixs 2) (\<lambda>ix2.
     exn_bind (verify_transfer_instruction L cfg ix2 keys requirements)
       (\<lambda>(transfer_valid, transfer_reason).
     if \<not> transfer_valid then Inr (invalid transfer_reason)
     else
     exn_bind (pubkey_from_string (fee_payer (extra requirements))) (\<lambda>fee_payer_pubkey.
     exn_bind (fee_payer_in_instructions keys fee_payer_pubkey ixs) (\<lambda>found.
       if found
       then Inr (invalid (Some ''Fee payer must not be in instruction accounts''))
       else Inr valid)))))))"

text \<open>
  The decoding at the head of \<open>verify\<close> and of \<open>settle\<close>: the legacy format first and,
  when the library refuses it, the versioned one, whose exception is the one that leaves.
\<close>

datatype decoded = DecodedLegacy transaction | DecodedVersioned versioned_transaction

definition parse_transaction :: "lib \<Rightarrow> bytes \<Rightarrow> exn + decoded" where
  "parse_transaction L tx_bytes =
     (case legacy_from_bytes L tx_bytes of
        Inr tx \<Rightarrow> Inr (DecodedLegacy tx)
      | Inl _ \<Rightarrow> map_sum id DecodedVersioned (versioned_from_bytes L tx_bytes))"

text \<open>\<open>verify\<close>: the body of its \<open>try\<close>, then the \<open>except\<close> around it.\<close>

fun verify_decoded ::
  "lib \<Rightarrow> settings \<Rightarrow> decoded \<Rightarrow> payment_requirements \<Rightarrow> exn + verify_response" where
  "verify_decoded L cfg (DecodedLegacy tx) requirements =
     verify_message L cfg (instructions (message tx)) (account_keys (message tx)) requirements"
| "verify_decoded L cfg (DecodedVersioned tx) requirements =
     (case vmessage tx of
        LegacyMessage _ \<Rightarrow> Inr (invalid (Some ''Unsupported transaction format''))
      | V0Message m \<Rightarrow> verify_message L cfg (instructions m) (account_keys m) requirements)"

definition verify_try ::
  "lib \<Rightarrow> settings \<Rightarrow> string \<Rightarrow> payment_requirements \<Rightarrow> exn + verify_response" where
  "verify_try L cfg payment_header requirements =
     exn_bind (b64decode L payment_header) (\<lambda>tx_bytes.
     exn_bind (parse_transaction L tx_bytes) (\<lambda>tx.
       verify_decoded L cfg tx requirements))"

definition verify ::
  "lib \<Rightarrow> settings \<Rightarrow> string \<Rightarrow> payment_requirements \<Rightarrow> verify_response" where
  "verify L cfg payment_header requirements =
     (case verify_try L cfg payment_header requirements of
        Inl e \<Rightarrow> invalid (Some (str_exn e))
      | Inr r \<Rightarrow> r)"

section \<open>The settler\<close>

text \<open>
  The facilitator object: its settings and the key pair \<open>initialize\<close> loaded, if any.
  The RPC client is the environment: what the node answers to the two calls
  \<open>settle\<close> makes. Every call made is recorded, in order.
\<close>

record facilitator =
  facilitator_settings :: settings
  facilitator_fee_payer :: "keypair option"

datatype rpc_call = GetLatestBlockhash | SendTransaction decoded

record rpc =
  get_latest_blockhash :: "exn + bytes"
  send_transaction :: "decoded \<Rightarrow> exn + string"

definition failure :: "string \<Rightarrow> settle_response" where
  "failure msg =
     \<lparr>success = False, error = Some msg, tx_hash = None, sr_network = None, payer = None\<rparr>"

text \<open>An f-string field: \<open>None\<close> prints as \<open>None\<close>.\<close>

definition str_optional :: "string option \<Rightarrow> string" where
  "str_optional r = (case r of None \<Rightarrow> ''None'' | Some t \<Rightarrow> t)"

text \<open>
  The loop over \<open>enumerate(message.account_keys[:num_signers])\<close>: the facilitator's
  signature goes to every position that holds its key; \<open>signatures[i] = ...\<close> raises
  where the list of signatures is shorter.
\<close>

fun place_signature ::
  "pubkey \<Rightarrow> signature \<Rightarrow> pubkey list \<Rightarrow> nat \<Rightarrow> signature list \<Rightarrow> exn + signature list" where
  "place_signature fp sig [] i sigs = Inr sigs"
| "place_signature fp sig (k # rest) i sigs =
     (if str_pubkey k = str_pubkey fp
      then (if i < length sigs
            then place_signature fp sig rest (i + 1) (sigs[i := sig])
            else Inl (IndexError ''list assignment index out of range''))
      else place_signature fp sig rest (i + 1) sigs)"

text \<open>The two branches that build \<open>tx_to_send\<close>.\<close>

fun co_sign :: "lib \<Rightarrow> crypto \<Rightarrow> keypair \<Rightarrow> decoded \<Rightarrow> exn + decoded" where
  "co_sign L C kp (DecodedLegacy tx) =
     (let m = message tx;
          facilitator_sig = sign_message C kp (message_bytes L m);
          num_signers = unat (num_required_signatures (header m))
      in map_sum id (\<lambda>sigs. DecodedLegacy \<lparr>signatures = sigs, message = m\<rparr>)
           (place_signature (pubkey kp) facilitator_sig (take num_signers (account_keys m)) 0
              (signatures tx)))"
| "co_sign L C kp (DecodedVersioned tx) =
     (let m = vmessage tx;
          all_signatures = vsignatures tx;
          facilitator_sig = sign_message C kp (message_hash C m)
      in Inr (DecodedVersioned
                \<lparr>vsignatures = all_signatures @ [facilitator_sig], vmessage = m\<rparr>))"

text \<open>
  \<open>settle\<close>. The result is the response and the RPC calls made, in order. An exception
  anywhere inside the \<open>try\<close> ends in the \<open>except\<close>, after the calls made so far.
  \<open>submit\<close> is the part from the block hash request on.
\<close>

definition submit ::
  "lib \<Rightarrow> crypto \<Rightarrow> rpc \<Rightarrow> facilitator \<Rightarrow> keypair \<Rightarrow> decoded \<Rightarrow>
   settle_response \<times> rpc_call list" where
  "submit L C node self kp tx =
     (case get_latest_blockhash node of
        Inl e \<Rightarrow> (failure (str_exn e), [GetLatestBlockhash])
      | Inr latest_blockhash \<Rightarrow>
          (case co_sign L C kp tx of
             Inl e \<Rightarrow> (failure (str_exn e), [GetLatestBlockhash])
           | Inr tx_to_send \<Rightarrow>
               (case send_transaction node tx_to_send of
                  Inl e \<Rightarrow>
                    (failure (str_exn e), [GetLatestBlockhash, SendTransaction tx_to_send])
                | Inr tx_signature \<Rightarrow>
                    (\<lparr>success = True, error = None, tx_hash = Some tx_signature,
                      sr_network = Some (solana_network (facilitator_settings self)),
                      payer = Some (str_pubkey (pubkey kp))\<rparr>,
                     [GetLatestBlockhash, SendTransaction tx_to_send]))))"

definition settle ::
  "lib \<Rightarrow> crypto \<Rightarrow> rpc \<Rightarrow> facilitator \<Rightarrow> string \<Rightarrow> payment_requirements \<Rightarrow>
   settle_response \<times> rpc_call list" where
  "settle L C node self payment_header requirements =
     (case facilitator_fee_payer self of
        None \<Rightarrow> (failure ''Facilitator not configured'', [])
      | Some kp \<Rightarrow>
          (let verify_result =
                 verify L (facilitator_settings self) payment_header requirements
           in
             if \<not> is_valid verify_result
             then (failure (''Verification failed: '' @
                            str_optional (invalid_reason verify_result)), [])
             else
               (case b64decode L payment_header of
                  Inl e \<Rightarrow> (failure (str_exn e), [])
                | Inr tx_bytes \<Rightarrow>
                    (case parse_transaction L tx_bytes of
                       Inl e2 \<Rightarrow>
                         (failure (''Failed to parse transaction: '' @ str_exn e2), [])
                     | Inr tx \<Rightarrow> submit L C node self kp tx))))"

section \<open>The requirement builder\<close>



text \<open>
  Double-precision arithmetic, exactly. \<open>round_fraction negative p q\<close> is the double
  nearest to \<open>p / q\<close> (ties to the even mantissa, 53 bits, exponents from \<open>-1074\<close>,
  overflow to infinity), with the sign given.
\<close>

fun bit_length :: "nat \<Rightarrow> nat" where
  "bit_length n = (if n = 0 then 0 else Suc (bit_length (n div 2)))"

declare bit_length.simps [simp del]

definition floor_log2 :: "nat \<Rightarrow> nat \<Rightarrow> int" where
  "floor_log2 p q =
     (let d = int (bit_length p) - int (bit_length q)
      in if (if 0 \<le> d then q * 2 ^ nat d \<le> p else q \<le> p * 2 ^ nat (- d)) then d else d - 1)"

definition round_half_even_div :: "nat \<Rightarrow> nat \<Rightarrow> nat" where
  "round_half_even_div n d =
     (let f = n div d; r = n mod d
      in if 2 * r < d then f
         else if d < 2 * r then f + 1
         else if even f then f else f + 1)"

definition round_fraction :: "bool \<Rightarrow> nat \<Rightarrow> nat \<Rightarrow> pyfloat" where
  "round_fraction negative p q =
     (if p = 0 then Finite 0 0
      else
        let e = max (floor_log2 p q - 52) (- 1074);
            m = (if 0 \<le> e then round_half_even_div p (q * 2 ^ nat e)
                 else round_half_even_div (p * 2 ^ nat (- e)) q)
        in if 0 \<le> e \<and> 2 ^ 1024 \<le> m * 2 ^ nat e then Infinity negative
           else Finite (if negative then - int m else int m) e)"







section \<open>Notions the properties are stated with\<close>

text \<open>
  What a payment header decodes to, as \<open>verify\<close> and \<open>settle\<close> decode it, and the part
  of the decoded transaction that is its message: header, account keys, block hash and
  instructions.
\<close>

definition decode_payment :: "lib \<Rightarrow> string \<Rightarrow> exn + decoded" where
  "decode_payment L payment_header =
     exn_bind (b64decode L payment_header) (parse_transaction L)"

fun decoded_message :: "decoded \<Rightarrow> message" where
  "decoded_message (DecodedLegacy tx) = message tx"
| "decoded_message (DecodedVersioned tx) =
     (case vmessage tx of LegacyMessage m \<Rightarrow> m | V0Message m \<Rightarrow> message.truncate m)"

text \<open>
  The formats \<open>verify\<close> goes on to examine: a versioned transaction that carries a
  legacy message is answered \<open>Unsupported transaction format\<close>.
\<close>

fun supported :: "decoded \<Rightarrow> bool" where
  "supported (DecodedLegacy tx) = True"
| "supported (DecodedVersioned tx) =
     (case vmessage tx of LegacyMessage m \<Rightarrow> False | V0Message m \<Rightarrow> True)"

text \<open>
  The checks of \<open>verify\<close> that come before the comparison of the amount: exactly three
  instructions, two compute-budget instructions first, a compute-unit price within the
  limit, and a third instruction of a token program with discriminator 12 and at least
  10 bytes of data.
\<close>

definition reaches_amount_check ::
  "settings \<Rightarrow> compiled_instruction list \<Rightarrow> pubkey list \<Rightarrow> bool" where
  "reaches_amount_check cfg ixs keys =
     (length ixs = 3 \<and>
      (case compute_budget_scan ixs keys [0, 1] (0, None) of
         Inl e \<Rightarrow> False
       | Inr (compute_budget_count, price_instruction_idx) \<Rightarrow>
           compute_budget_count = 2 \<and>
           (case price_instruction_idx of
              None \<Rightarrow> True
            | Some idx \<Rightarrow>
                (case verify_compute_price cfg (ixs ! idx) of
                   Inl e \<Rightarrow> False
                 | Inr (price_valid, price_reason) \<Rightarrow> price_valid))) \<and>
      (case list_index keys (unat (program_id_index (ixs ! 2))) of
         Inl e \<Rightarrow> False
       | Inr program_id \<Rightarrow> program_id = SPL_TOKEN_PROGRAM \<or> program_id = TOKEN_2022_PROGRAM) \<and>
      10 \<le> length (data (ixs ! 2)) \<and> unat (data (ixs ! 2) ! 0) = 12)"

text \<open>A decoded transaction without its signatures: what is left is its message.\<close>

fun drop_signatures :: "decoded \<Rightarrow> decoded" where
  "drop_signatures (DecodedLegacy tx) = DecodedLegacy (tx\<lparr>signatures := []\<rparr>)"
| "drop_signatures (DecodedVersioned tx) = DecodedVersioned (tx\<lparr>vsignatures := []\<rparr>)"

text \<open>A decoded transaction with the header of its message replaced.\<close>

fun with_header :: "message_header \<Rightarrow> decoded \<Rightarrow> decoded" where
  "with_header hdr (DecodedLegacy tx) =
     DecodedLegacy (tx\<lparr>message := (message tx)\<lparr>header := hdr\<rparr>\<rparr>)"
| "with_header hdr (DecodedVersioned tx) =
     DecodedVersioned
       (tx\<lparr>vmessage :=
            (case vmessage tx of
               LegacyMessage m \<Rightarrow> LegacyMessage (m\<lparr>header := hdr\<rparr>)
             | V0Message m \<Rightarrow> V0Message (m\<lparr>header := hdr\<rparr>))\<rparr>)"


text \<open>\<open>needle in haystack\<close> on strings.\<close>

fun contains :: "string \<Rightarrow> string \<Rightarrow> bool" where
  "contains needle [] = (needle = [])"
| "contains needle (c # cs) = (take (length needle) (c # cs) = needle \<or> contains needle cs)"

text \<open>
  The price conversion in the words of the specification, to compare the code with:
  strip a leading \<open>$\<close> if present, parse the rest as a decimal \<open>digits[.digits]\<close>,
  multiply by \<open>10 ^ decimals\<close> rounding to the nearest integer, ties to even, and clamp
  to \<open>[1, 2 ^ 64 - 1]\<close>.
\<close>

definition decimal_digit :: "char \<Rightarrow> nat option" where
  "decimal_digit c =
     (let n = (of_char c :: nat) in if 48 \<le> n \<and> n \<le> 57 then Some (n - 48) else None)"

fun decimal_number :: "string \<Rightarrow> nat \<Rightarrow> nat option" where
  "decimal_number [] acc = Some acc"
| "decimal_number (c # cs) acc =
     (case decimal_digit c of
        None \<Rightarrow> None
      | Some d \<Rightarrow> decimal_number cs (acc * 10 + d))"



section \<open>Keys of the examples\<close>

text \<open>
  Keys and a block hash for the examples, and the base58 text of the two keys a
  requirement names. The keys of the facilitator, the sender, Alice, Bob and Carol are
  Ed25519 public keys, and \<open>facilitator_seed\<close> is the secret half of the first.
  \<open>destination_account\<close> is the associated token account of the merchant for the USDC
  mint under the SPL Token program, \<open>3YLzjDBfYMnCY7XFymBUxLALyxTKodcWhwu9gQTfssmv\<close>.
\<close>

definition facilitator_seed :: bytes where
  "facilitator_seed =
     [62, 97, 114, 103, 131, 185, 24, 97, 167, 34, 35, 97, 71, 172, 134, 156,
      35, 69, 247, 188, 115, 128, 122, 87, 245, 47, 21, 41, 92, 141, 235, 13]"

definition facilitator_key :: pubkey where
  "facilitator_key =
     [250, 167, 249, 97, 46, 140, 54, 246, 94, 31, 17, 229, 95, 160, 65, 102,
      119, 63, 34, 12, 214, 161, 57, 220, 75, 174, 216, 178, 168, 180, 137, 35]"

definition sender_key :: pubkey where
  "sender_key =
     [165, 160, 168, 114, 84, 173, 9, 250, 76, 146, 194, 2, 172, 180, 139, 241,
      188, 175, 252, 17, 169, 24, 118, 13, 38, 165, 165, 65, 215, 245, 212, 214]"

definition merchant_key :: pubkey where
  "merchant_key =
     [158, 120, 108, 206, 13, 149, 240, 246, 8, 149, 138, 254, 247, 164, 118, 162,
      31, 108, 111, 179, 220, 233, 129, 210, 172, 5, 75, 95, 30, 156, 185, 33]"

definition source_account :: pubkey where
  "source_account =
     [199, 76, 116, 78, 19, 151, 214, 252, 30, 157, 224, 91, 244, 213, 29, 192,
      162, 192, 30, 218, 63, 67, 60, 66, 66, 40, 25, 25, 22, 51, 149, 135]"

definition usdc_mint_key :: pubkey where
  "usdc_mint_key =
     [198, 250, 122, 243, 190, 219, 173, 58, 61, 101, 243, 106, 171, 201, 116, 49,
      177, 187, 228, 194, 210, 246, 224, 228, 124, 166, 2, 3, 69, 47, 93, 97]"

definition destination_account :: pubkey where
  "destination_account =
     [37, 190, 252, 217, 212, 168, 105, 96, 125, 99, 120, 250, 201, 28, 38, 11,
      141, 228, 15, 145, 86, 30, 120, 217, 218, 5, 223, 103, 84, 168, 90, 229]"

definition alice_key :: pubkey where
  "alice_key =
     [213, 191, 74, 63, 204, 231, 23, 176, 56, 139, 204, 39, 73, 235, 193, 72,
      173, 153, 105, 178, 63, 69, 238, 27, 96, 95, 213, 135, 120, 87, 106, 196]"

definition bob_key :: pubkey where
  "bob_key =
     [236, 193, 181, 135, 39, 243, 241, 43, 49, 148, 136, 26, 158, 203, 157, 224,
      178, 140, 231, 178, 7, 35, 13, 142, 147, 15, 225, 188, 231, 94, 37, 108]"

definition carol_key :: pubkey where
  "carol_key =
     [38, 177, 199, 40, 73, 185, 60, 165, 54, 100, 202, 130, 64, 100, 60, 81,
      76, 71, 28, 160, 164, 164, 36, 226, 76, 242, 204, 200, 10, 57, 147, 62]"

definition example_blockhash :: bytes where
  "example_blockhash =
     [57, 91, 247, 39, 249, 170, 197, 232, 9, 17, 89, 16, 115, 252, 249, 200,
      38, 244, 40, 128, 65, 49, 202, 8, 155, 235, 163, 134, 148, 33, 116, 154]"

definition facilitator_address :: string where
  "facilitator_address = ''HsTUwAwF7YV5cS98oe995nasKzE6LskZGuEHiEH74PZt''"

definition merchant_address :: string where
  "merchant_address = ''BfbvQP92h3HQ7a8h7gCnyRZPfkvUnEH9uW6VshgaFT9A''"

section \<open>A reference instance of the library\<close>

text \<open>
  The theorems about \<open>verify\<close> and \<open>settle\<close> hold for every \<open>lib\<close>. To run the model on
  concrete payment headers, \<open>ref_lib\<close> implements the library: \<open>base64.b64decode\<close>, the
  wire format of legacy and version-0 transactions (compact-u16 length prefixes, 64-byte
  signatures, the 3-byte header, 32-byte keys and block hash, instructions, address
  table lookups) read as bincode reads it, a prefix of the bytes, and the parsers of
  \<open>int(s)\<close> and \<open>float(s)\<close> on text of 8-bit characters.
\<close>

text \<open>
  \<open>base64.b64decode(s)\<close> on a \<open>str\<close>: text with a character outside ASCII is refused;
  then the decoder of \<open>binascii.a2b_base64\<close>, which skips every character outside the
  alphabet, stops at the padding that completes a group of four, and refuses an input
  that ends inside a group. \<open>b64_scan\<close> carries its position in the group, the bits
  left over and the number of padding characters seen; \<open>Inl q\<close> is the input ending at
  position \<open>q\<close> of a group.
\<close>

definition b64_digit :: "char \<Rightarrow> nat option" where
  "b64_digit c =
     (let n = (of_char c :: nat) in
      if 65 \<le> n \<and> n \<le> 90 then Some (n - 65)
      else if 97 \<le> n \<and> n \<le> 122 then Some (n - 71)
      else if 48 \<le> n \<and> n \<le> 57 then Some (n + 4)
      else if n = 43 then Some 62
      else if n = 47 then Some 63
      else None)"

definition b64_emit :: "nat \<Rightarrow> nat + bytes \<Rightarrow> nat + bytes" where
  "b64_emit b r = map_sum id (\<lambda>bs. word_of_nat b # bs) r"

fun b64_scan :: "string \<Rightarrow> nat \<Rightarrow> nat \<Rightarrow> nat \<Rightarrow> nat + bytes" where
  "b64_scan [] quad_pos leftchar pads = (if quad_pos = 0 then Inr [] else Inl quad_pos)"
| "b64_scan (c # cs) quad_pos leftchar pads =
     (if c = CHR ''='' then
        (if 2 \<le> quad_pos \<and> 4 \<le> quad_pos + (pads + 1) then Inr []
         else b64_scan cs quad_pos leftchar (if 2 \<le> quad_pos then pads + 1 else pads))
      else
        (case b64_digit c of
           None \<Rightarrow> b64_scan cs quad_pos leftchar pads
         | Some v \<Rightarrow>
             if quad_pos = 0 then b64_scan cs 1 v 0
             else if quad_pos = 1
             then b64_emit (leftchar * 4 + v div 16) (b64_scan cs 2 (v mod 16) 0)
             else if quad_pos = 2
             then b64_emit (leftchar * 16 + v div 4) (b64_scan cs 3 (v mod 4) 0)
             else b64_emit (leftchar * 64 + v) (b64_scan cs 0 0 0)))"

definition ref_b64decode :: "string \<Rightarrow> exn + bytes" where
  "ref_b64decode s =
     (if \<not> list_all (\<lambda>c. (of_char c :: nat) < 128) s
      then Inl (ValueError ''string argument should contain only ASCII characters'')
      else
        (case b64_scan s 0 0 0 of
           Inr b \<Rightarrow> Inr b
         | Inl quad_pos \<Rightarrow>
             if quad_pos = 1
             then Inl (LibraryError
                    (''Invalid base64-encoded string: number of data characters ('' @
                     str_nat (length (filter (\<lambda>c. b64_digit c \<noteq> None) s)) @
                     '') cannot be 1 more than a multiple of 4''))
             else Inl (LibraryError ''Incorrect padding'')))"

text \<open>
  The readers of the wire format. A compact-u16 length is one to three bytes, seven
  bits each, low bits first; an encoding longer than needed (a last byte of zero after
  the first) or beyond 16 bits is refused.
\<close>

type_synonym 'a reader = "bytes \<Rightarrow> ('a \<times> bytes) option"

fun read_u8 :: "byte reader" where
  "read_u8 [] = None"
| "read_u8 (b # rest) = Some (b, rest)"

definition read_bytes :: "nat \<Rightarrow> bytes reader" where
  "read_bytes n bs = (if n \<le> length bs then Some (take n bs, drop n bs) else None)"

fun read_shortvec_len :: "nat reader" where
  "read_shortvec_len [] = None"
| "read_shortvec_len (b0 # r0) =
     (if unat b0 < 128 then Some (unat b0, r0)
      else
        (case r0 of
           [] \<Rightarrow> None
         | b1 # r1 \<Rightarrow>
             if unat b1 = 0 then None
             else if unat b1 < 128 then Some (unat b0 - 128 + 128 * unat b1, r1)
             else
               (case r1 of
                  [] \<Rightarrow> None
                | b2 # r2 \<Rightarrow>
                    if 0 < unat b2 \<and> unat b2 < 4
                    then Some (unat b0 - 128 + 128 * (unat b1 - 128) + 16384 * unat b2, r2)
                    else None)))"

fun read_many :: "nat \<Rightarrow> 'a reader \<Rightarrow> 'a list reader" where
  "read_many 0 rd bs = Some ([], bs)"
| "read_many (Suc n) rd bs =
     (case rd bs of
        None \<Rightarrow> None
      | Some (x, rest) \<Rightarrow>
          (case read_many n rd rest of
             None \<Rightarrow> None
           | Some (xs, rest') \<Rightarrow> Some (x # xs, rest')))"

definition read_shortvec :: "'a reader \<Rightarrow> 'a list reader" where
  "read_shortvec rd bs =
     (case read_shortvec_len bs of
        None \<Rightarrow> None
      | Some (n, rest) \<Rightarrow> read_many n rd rest)"

definition read_byte_vec :: "bytes reader" where
  "read_byte_vec bs =
     (case read_shortvec_len bs of
        None \<Rightarrow> None
      | Some (n, rest) \<Rightarrow> read_bytes n rest)"

definition read_instruction :: "compiled_instruction reader" where
  "read_instruction bs =
     (case read_u8 bs of
        None \<Rightarrow> None
      | Some (p, r1) \<Rightarrow>
          (case read_byte_vec r1 of
             None \<Rightarrow> None
           | Some (a, r2) \<Rightarrow>
               (case read_byte_vec r2 of
                  None \<Rightarrow> None
                | Some (d, r3) \<Rightarrow>
                    Some (\<lparr>program_id_index = p, accounts = a, data = d\<rparr>, r3))))"

definition read_message :: "message reader" where
  "read_message bs =
     (case read_bytes 3 bs of
        Some ([h0, h1, h2], r1) \<Rightarrow>
          (case read_shortvec (read_bytes 32) r1 of
             None \<Rightarrow> None
           | Some (keys, r2) \<Rightarrow>
               (case read_bytes 32 r2 of
                  None \<Rightarrow> None
                | Some (bh, r3) \<Rightarrow>
                    (case read_shortvec read_instruction r3 of
                       None \<Rightarrow> None
                     | Some (ixs, r4) \<Rightarrow>
                         Some (\<lparr>header = \<lparr>num_required_signatures = h0,
                                            num_readonly_signed_accounts = h1,
                                            num_readonly_unsigned_accounts = h2\<rparr>,
                                 account_keys = keys, recent_blockhash = bh,
                                 instructions = ixs\<rparr>, r4))))
      | _ \<Rightarrow> None)"

definition read_lookup :: "address_table_lookup reader" where
  "read_lookup bs =
     (case read_bytes 32 bs of
        None \<Rightarrow> None
      | Some (k, r1) \<Rightarrow>
          (case read_byte_vec r1 of
             None \<Rightarrow> None
           | Some (w, r2) \<Rightarrow>
               (case read_byte_vec r2 of
                  None \<Rightarrow> None
                | Some (r, r3) \<Rightarrow>
                    Some (\<lparr>account_key = k, writable_indexes = w, readonly_indexes = r\<rparr>,
                          r3))))"

text \<open>
  A versioned message: a first byte with its high bit set carries the version (only 0
  is known), and a version-0 message ends with its address table lookups; any other
  first byte starts a legacy message.
\<close>

definition read_versioned_message :: "versioned_message reader" where
  "read_versioned_message bs =
     (case bs of
        [] \<Rightarrow> None
      | b # rest \<Rightarrow>
          if unat b < 128 then map_option (map_prod LegacyMessage id) (read_message bs)
          else if unat b = 128 then
            (case read_message rest of
               None \<Rightarrow> None
             | Some (m, r1) \<Rightarrow>
                 (case read_shortvec read_lookup r1 of
                    None \<Rightarrow> None
                  | Some (ls, r2) \<Rightarrow>
                      Some (V0Message (message.extend m
                              \<lparr>address_table_lookups = ls\<rparr>), r2)))
          else None)"

definition ref_legacy_from_bytes :: "bytes \<Rightarrow> exn + transaction" where
  "ref_legacy_from_bytes bs =
     (case read_shortvec (read_bytes 64) bs of
        None \<Rightarrow> Inl (ValueError ''io error: unexpected end of file'')
      | Some (sigs, r1) \<Rightarrow>
          (case read_message r1 of
             None \<Rightarrow> Inl (ValueError ''io error: unexpected end of file'')
           | Some (m, _) \<Rightarrow> Inr \<lparr>signatures = sigs, message = m\<rparr>))"

definition ref_versioned_from_bytes :: "bytes \<Rightarrow> exn + versioned_transaction" where
  "ref_versioned_from_bytes bs =
     (case read_shortvec (read_bytes 64) bs of
        None \<Rightarrow> Inl (ValueError ''io error: unexpected end of file'')
      | Some (sigs, r1) \<Rightarrow>
          (case read_versioned_message r1 of
             None \<Rightarrow> Inl (ValueError ''io error: unexpected end of file'')
           | Some (m, _) \<Rightarrow> Inr \<lparr>vsignatures = sigs, vmessage = m\<rparr>))"

text \<open>\<open>bytes(message)\<close> of a legacy message: its serialisation.\<close>

definition write_shortvec_len :: "nat \<Rightarrow> bytes" where
  "write_shortvec_len n =
     (if n < 128 then [word_of_nat n]
      else if n < 16384 then [word_of_nat (128 + n mod 128), word_of_nat (n div 128)]
      else [word_of_nat (128 + n mod 128), word_of_nat (128 + n div 128 mod 128),
            word_of_nat (n div 16384)])"

definition write_instruction :: "compiled_instruction \<Rightarrow> bytes" where
  "write_instruction ix =
     program_id_index ix # write_shortvec_len (length (accounts ix)) @ accounts ix @
     write_shortvec_len (length (data ix)) @ data ix"

definition write_message :: "message \<Rightarrow> bytes" where
  "write_message m =
     [num_required_signatures (header m), num_readonly_signed_accounts (header m),
      num_readonly_unsigned_accounts (header m)] @
     write_shortvec_len (length (account_keys m)) @ concat (account_keys m) @
     recent_blockhash m @
     write_shortvec_len (length (instructions m)) @
     concat (map write_instruction (instructions m))"

text \<open>
  \<open>Pubkey.find_program_address\<close> hashes the seeds, a bump seed, the program id and the
  text \<open>ProgramDerivedAddress\<close> with SHA-256, for the bump seeds from 255 downwards,
  and answers with the first hash that is no point of the Ed25519 curve, and its bump
  seed. The reference instance does not run that derivation: it holds the results for
  the seeds of the examples. The associated token account of the merchant for the USDC
  mint under the SPL Token program is found at bump seed 254. For seeds it does not
  hold, the instance answers with the key of zeros.
\<close>

definition known_program_addresses :: "((bytes list \<times> pubkey) \<times> (pubkey \<times> nat)) list" where
  "known_program_addresses =
     [(([merchant_key, SPL_TOKEN_PROGRAM, usdc_mint_key], ASSOCIATED_TOKEN_PROGRAM),
       (destination_account, 254))]"

definition ref_find_program_address :: "bytes list \<Rightarrow> pubkey \<Rightarrow> pubkey \<times> nat" where
  "ref_find_program_address seeds program_id =
     (case map_of known_program_addresses (seeds, program_id) of
        Some found \<Rightarrow> found
      | None \<Rightarrow> (replicate 32 0, 0))"

text \<open>
  \<open>repr(s)\<close> of a string, as the messages of \<open>int(s)\<close> and \<open>float(s)\<close> quote their
  argument.
\<close>

definition hex_digit :: "nat \<Rightarrow> char" where
  "hex_digit d = ''0123456789abcdef'' ! d"

definition repr_char :: "char \<Rightarrow> char \<Rightarrow> string" where
  "repr_char quote c =
     (let n = (of_char c :: nat) in
      if c = quote \<or> n = 92 then [CHR 0x5C, c]
      else if n = 9 then [CHR 0x5C, CHR ''t'']
      else if n = 10 then [CHR 0x5C, CHR ''n'']
      else if n = 13 then [CHR 0x5C, CHR ''r'']
      else if n < 32 \<or> (127 \<le> n \<and> n \<le> 160) \<or> n = 173
      then [CHR 0x5C, CHR ''x'', hex_digit (n div 16), hex_digit (n mod 16)]
      else [c])"

definition py_repr :: "string \<Rightarrow> string" where
  "py_repr s =
     (let quote = (if CHR 0x27 \<in> set s \<and> CHR 0x22 \<notin> set s then CHR 0x22 else CHR 0x27)
      in quote # concat (map (repr_char quote) s) @ [quote])"

text \<open>
  What \<open>int(s)\<close> and \<open>float(s)\<close> strip from both ends, and a run of digits in which
  single underscores may separate digits: its digits.
\<close>

definition py_space :: "char \<Rightarrow> bool" where
  "py_space c = (let n = (of_char c :: nat) in (9 \<le> n \<and> n \<le> 13) \<or> (28 \<le> n \<and> n \<le> 32))"

definition py_strip :: "string \<Rightarrow> string" where
  "py_strip s = rev (dropWhile py_space (rev (dropWhile py_space s)))"

fun digit_part :: "string \<Rightarrow> string option" where
  "digit_part [] = None"
| "digit_part [c] = (if decimal_digit c = None then None else Some [c])"
| "digit_part (c # d # cs) =
     (if decimal_digit c = None then None
      else if d = CHR ''_'' then map_option ((#) c) (digit_part cs)
      else map_option ((#) c) (digit_part (d # cs)))"

definition is_sign :: "char \<Rightarrow> bool" where
  "is_sign c = (c = CHR ''+'' \<or> c = CHR ''-'')"

definition unsigned_part :: "string \<Rightarrow> string" where
  "unsigned_part s = (case s of [] \<Rightarrow> [] | c # cs \<Rightarrow> if is_sign c then cs else s)"

definition is_negative :: "string \<Rightarrow> bool" where
  "is_negative s = (case s of [] \<Rightarrow> False | c # cs \<Rightarrow> c = CHR ''-'')"

text \<open>
  \<open>int(s)\<close> in base 10: an optional sign and a run of digits, between optional white
  space. The limit Python puts on the number of digits is left aside.
\<close>

definition ref_py_int :: "string \<Rightarrow> exn + int" where
  "ref_py_int s =
     (let t = py_strip s in
      case digit_part (unsigned_part t) of
        None \<Rightarrow> Inl (ValueError (''invalid literal for int() with base 10: '' @ py_repr s))
      | Some ds \<Rightarrow>
          (case decimal_number ds 0 of
             None \<Rightarrow> Inl (ValueError (''invalid literal for int() with base 10: '' @ py_repr s))
           | Some n \<Rightarrow> Inr (if is_negative t then - int n else int n)))"

text \<open>
  \<open>float(s)\<close>: between optional white space an optional sign and then \<open>inf\<close>,
  \<open>infinity\<close>, \<open>nan\<close>, or a number: digits with an optional point among them and an
  optional exponent, letters in either case. \<open>float_number\<close> gives the digits of the
  number as an integer and the power of ten to scale it with; the result is the double
  nearest to that decimal.
\<close>

definition ascii_lower :: "char \<Rightarrow> char" where
  "ascii_lower c =
     (let n = (of_char c :: nat)
      in if 65 \<le> n \<and> n \<le> 90 then ''abcdefghijklmnopqrstuvwxyz'' ! (n - 65) else c)"

definition optional_digits :: "string \<Rightarrow> string option" where
  "optional_digits s = (if s = [] then Some [] else digit_part s)"

definition float_mantissa :: "string \<Rightarrow> (nat \<times> nat) option" where
  "float_mantissa s =
     (let int_text = takeWhile (\<lambda>c. c \<noteq> CHR ''.'') s;
          rest = dropWhile (\<lambda>c. c \<noteq> CHR ''.'') s
      in if rest = []
         then (case digit_part int_text of
                 None \<Rightarrow> None
               | Some ds \<Rightarrow> map_option (\<lambda>n. (n, 0)) (decimal_number ds 0))
         else if int_text = [] \<and> tl rest = [] then None
         else
           (case optional_digits int_text of
              None \<Rightarrow> None
            | Some ds \<Rightarrow>
                (case optional_digits (tl rest) of
                   None \<Rightarrow> None
                 | Some fs \<Rightarrow>
                     map_option (\<lambda>n. (n, length fs)) (decimal_number (ds @ fs) 0))))"

definition float_number :: "string \<Rightarrow> (nat \<times> int) option" where
  "float_number s =
     (let mantissa = takeWhile (\<lambda>c. c \<noteq> CHR ''e'') s;
          rest = dropWhile (\<lambda>c. c \<noteq> CHR ''e'') s
      in case float_mantissa mantissa of
           None \<Rightarrow> None
         | Some (n, k) \<Rightarrow>
             if rest = [] then Some (n, - int k)
             else
               (case digit_part (unsigned_part (tl rest)) of
                  None \<Rightarrow> None
                | Some ds \<Rightarrow>
                    map_option
                      (\<lambda>x. (n, (if is_negative (tl rest) then - int x else int x) - int k))
                      (decimal_number ds 0)))"

definition ref_py_float :: "string \<Rightarrow> exn + pyfloat" where
  "ref_py_float s =
     (let t = map ascii_lower (py_strip s);
          body = unsigned_part t
      in if body = ''inf'' \<or> body = ''infinity'' then Inr (Infinity (is_negative t))
         else if body = ''nan'' then Inr NaN
         else
           (case float_number body of
              None \<Rightarrow> Inl (ValueError (''could not convert string to float: '' @ py_repr s))
            | Some (n, x) \<Rightarrow>
                Inr (if 0 \<le> x then round_fraction (is_negative t) (n * 10 ^ nat x) 1
                     else round_fraction (is_negative t) n (10 ^ nat (- x)))))"

definition ref_lib :: lib where
  "ref_lib =
     \<lparr>b64decode = ref_b64decode,
      legacy_from_bytes = ref_legacy_from_bytes,
      versioned_from_bytes = ref_versioned_from_bytes,
      find_program_address = ref_find_program_address,
      py_int = ref_py_int,
      py_float = ref_py_float,
      message_bytes = write_message\<rparr>"

section \<open>Example payments\<close>

text \<open>The requirement of the examples: 10000 atomic units of USDC to the merchant.\<close>

definition example_requirements :: payment_requirements where
  "example_requirements =
     \<lparr>scheme = ''exact'', network = ''solana'', max_amount_required = ''10000'',
      asset = usdc_mint default_settings, pay_to = merchant_address,
      resource = ''https://api.example.com/premium'', description = ''API access payment'',
      mime_type = ''application/json'', max_timeout_seconds = 60, output_schema = None,
      extra = \<lparr>fee_payer = facilitator_address\<rparr>\<rparr>"

text \<open>The same requirement for 9999 units, and settings that allow no compute-unit price.\<close>

definition requirements_9999 :: payment_requirements where
  "requirements_9999 = example_requirements\<lparr>max_amount_required := ''9999''\<rparr>"

definition strict_settings :: settings where
  "strict_settings = default_settings\<lparr>max_compute_unit_price := 0\<rparr>"

definition example_keypair :: keypair where
  "example_keypair = \<lparr>secret = facilitator_seed @ facilitator_key, pubkey = facilitator_key\<rparr>"

definition example_facilitator :: facilitator where
  "example_facilitator =
     \<lparr>facilitator_settings = default_settings, facilitator_fee_payer = Some example_keypair\<rparr>"


text \<open>
  The intended payment, a legacy transaction: the facilitator is the fee payer at index 0
  with an empty signature slot, the sender has signed at index 1; a compute-unit limit,
  a compute-unit price of 1 and a transfer-checked of 10000 units with 6 decimals over
  the accounts [source, mint, destination, sender].
\<close>

definition happy_header :: string where
  "happy_header =
     ''AgAAAAAAAAAAAAAAAAAAAAAAAAAAAAAAAAAAAAAAAAAAAAAAAAAAAAAAAAAAAAAAAAAAAAAAAAAA'' @
     ''AAAAAAAAAACmP/xPwCcfp/mK96q67ubGU3sJjZfMf1TKGnJN9RF9t63eTGFvpXj/24GSOHnKe9bk'' @
     ''klgoPKJ5CH5/Ktk6y50LAgEDB/qn+WEujDb2Xh8R5V+gQWZ3PyIM1qE53Euu2LKotIkjpaCoclSt'' @
     ''CfpMksICrLSL8byv/BGpGHYNJqWlQdf11NbHTHROE5fW/B6d4Fv01R3AosAe2j9DPEJCKBkZFjOV'' @
     ''hyW+/NnUqGlgfWN4+skcJguN5A+RVh542doF32dUqFrlxvp6877brTo9ZfNqq8l0MbG75MLS9uDk'' @
     ''fKYCA0UvXWEDBkZv5SEXMv/srbpyw5vnvIzlu8X3EmssQ5s6QAAAAAbd9uHXZaGT2cvhRs7reawc'' @
     ''tIXtX1s3kTqM9YV+/wCpOVv3J/mqxegJEVkQc/z5yCb0KIBBMcoIm+ujhpQhdJoDBQAFAkANAwAF'' @
     ''AAkDAQAAAAAAAAAGBAIEAwEKDBAnAAAAAAAABg==''"

definition happy_message :: message where
  "happy_message =
     \<lparr>header = \<lparr>num_required_signatures = 2, num_readonly_signed_accounts = 1,
                num_readonly_unsigned_accounts = 3\<rparr>,
      account_keys = [facilitator_key, sender_key, source_account, destination_account, usdc_mint_key, COMPUTE_BUDGET_PROGRAM, SPL_TOKEN_PROGRAM],
      recent_blockhash = example_blockhash,
      instructions =
        [\<lparr>program_id_index = 5, accounts = [], data = [2, 64, 13, 3, 0]\<rparr>,
         \<lparr>program_id_index = 5, accounts = [], data = [3, 1, 0, 0, 0, 0, 0, 0, 0]\<rparr>,
         \<lparr>program_id_index = 6, accounts = [2, 4, 3, 1], data = [12, 16, 39, 0, 0, 0, 0, 0, 0, 6]\<rparr>]\<rparr>"

definition happy_tx :: transaction where
  "happy_tx =
     \<lparr>signatures = [replicate 64 0,
                   [166, 63, 252, 79, 192, 39, 31, 167, 249, 138, 247, 170, 186, 238, 230, 198,
                    83, 123, 9, 141, 151, 204, 127, 84, 202, 26, 114, 77, 245, 17, 125, 183,
                    173, 222, 76, 97, 111, 165, 120, 255, 219, 129, 146, 56, 121, 202, 123, 214,
                    228, 146, 88, 40, 60, 162, 121, 8, 126, 127, 42, 217, 58, 203, 157, 11]],
      message = happy_message\<rparr>"

text \<open>
  The same message with both signature slots empty.
\<close>

definition unsigned_header :: string where
  "unsigned_header =
     ''AgAAAAAAAAAAAAAAAAAAAAAAAAAAAAAAAAAAAAAAAAAAAAAAAAAAAAAAAAAAAAAAAAAAAAAAAAAA'' @
     ''AAAAAAAAAAAAAAAAAAAAAAAAAAAAAAAAAAAAAAAAAAAAAAAAAAAAAAAAAAAAAAAAAAAAAAAAAAAA'' @
     ''AAAAAAAAAAAAAAAAAAAAAgEDB/qn+WEujDb2Xh8R5V+gQWZ3PyIM1qE53Euu2LKotIkjpaCoclSt'' @
     ''CfpMksICrLSL8byv/BGpGHYNJqWlQdf11NbHTHROE5fW/B6d4Fv01R3AosAe2j9DPEJCKBkZFjOV'' @
     ''hyW+/NnUqGlgfWN4+skcJguN5A+RVh542doF32dUqFrlxvp6877brTo9ZfNqq8l0MbG75MLS9uDk'' @
     ''fKYCA0UvXWEDBkZv5SEXMv/srbpyw5vnvIzlu8X3EmssQ5s6QAAAAAbd9uHXZaGT2cvhRs7reawc'' @
     ''tIXtX1s3kTqM9YV+/wCpOVv3J/mqxegJEVkQc/z5yCb0KIBBMcoIm+ujhpQhdJoDBQAFAkANAwAF'' @
     ''AAkDAQAAAAAAAAAGBAIEAwEKDBAnAAAAAAAABg==''"

definition unsigned_message :: message where
  "unsigned_message =
     \<lparr>header = \<lparr>num_required_signatures = 2, num_readonly_signed_accounts = 1,
                num_readonly_unsigned_accounts = 3\<rparr>,
      account_keys = [facilitator_key, sender_key, source_account, destination_account, usdc_mint_key, COMPUTE_BUDGET_PROGRAM, SPL_TOKEN_PROGRAM],
      recent_blockhash = example_blockhash,
      instructions =
        [\<lparr>program_id_index = 5, accounts = [], data = [2, 64, 13, 3, 0]\<rparr>,
         \<lparr>program_id_index = 5, accounts = [], data = [3, 1, 0, 0, 0, 0, 0, 0, 0]\<rparr>,
         \<lparr>program_id_index = 6, accounts = [2, 4, 3, 1], data = [12, 16, 39, 0, 0, 0, 0, 0, 0, 6]\<rparr>]\<rparr>"

definition unsigned_tx :: transaction where
  "unsigned_tx =
     \<lparr>signatures = [replicate 64 0,
                   replicate 64 0],
      message = unsigned_message\<rparr>"

text \<open>
  The same transaction under another message header: one required signature, so that
  the sender is no signer of it.
\<close>

definition one_signer_header :: string where
  "one_signer_header =
     ''AgAAAAAAAAAAAAAAAAAAAAAAAAAAAAAAAAAAAAAAAAAAAAAAAAAAAAAAAAAAAAAAAAAAAAAAAAAA'' @
     ''AAAAAAAAAACmP/xPwCcfp/mK96q67ubGU3sJjZfMf1TKGnJN9RF9t63eTGFvpXj/24GSOHnKe9bk'' @
     ''klgoPKJ5CH5/Ktk6y50LAQADB/qn+WEujDb2Xh8R5V+gQWZ3PyIM1qE53Euu2LKotIkjpaCoclSt'' @
     ''CfpMksICrLSL8byv/BGpGHYNJqWlQdf11NbHTHROE5fW/B6d4Fv01R3AosAe2j9DPEJCKBkZFjOV'' @
     ''hyW+/NnUqGlgfWN4+skcJguN5A+RVh542doF32dUqFrlxvp6877brTo9ZfNqq8l0MbG75MLS9uDk'' @
     ''fKYCA0UvXWEDBkZv5SEXMv/srbpyw5vnvIzlu8X3EmssQ5s6QAAAAAbd9uHXZaGT2cvhRs7reawc'' @
     ''tIXtX1s3kTqM9YV+/wCpOVv3J/mqxegJEVkQc/z5yCb0KIBBMcoIm+ujhpQhdJoDBQAFAkANAwAF'' @
     ''AAkDAQAAAAAAAAAGBAIEAwEKDBAnAAAAAAAABg==''"

definition one_signer_message :: message where
  "one_signer_message =
     \<lparr>header = \<lparr>num_required_signatures = 1, num_readonly_signed_accounts = 0,
                num_readonly_unsigned_accounts = 3\<rparr>,
      account_keys = [facilitator_key, sender_key, source_account, destination_account, usdc_mint_key, COMPUTE_BUDGET_PROGRAM, SPL_TOKEN_PROGRAM],
      recent_blockhash = example_blockhash,
      instructions =
        [\<lparr>program_id_index = 5, accounts = [], data = [2, 64, 13, 3, 0]\<rparr>,
         \<lparr>program_id_index = 5, accounts = [], data = [3, 1, 0, 0, 0, 0, 0, 0, 0]\<rparr>,
         \<lparr>program_id_index = 6, accounts = [2, 4, 3, 1], data = [12, 16, 39, 0, 0, 0, 0, 0, 0, 6]\<rparr>]\<rparr>"

definition one_signer_tx :: transaction where
  "one_signer_tx =
     \<lparr>signatures = [replicate 64 0,
                   [166, 63, 252, 79, 192, 39, 31, 167, 249, 138, 247, 170, 186, 238, 230, 198,
                    83, 123, 9, 141, 151, 204, 127, 84, 202, 26, 114, 77, 245, 17, 125, 183,
                    173, 222, 76, 97, 111, 165, 120, 255, 219, 129, 146, 56, 121, 202, 123, 214,
                    228, 146, 88, 40, 60, 162, 121, 8, 126, 127, 42, 217, 58, 203, 157, 11]],
      message = one_signer_message\<rparr>"

text \<open>
  A transaction that does not involve the facilitator: three signers, the first pays the
  fee, the third is the authority of the transfer.
\<close>

definition other_payer_header :: string where
  "other_payer_header =
     ''AxFq+3k7tp8zYrUneIwAuFn1cdoOdU7B3MSsGi1YWEZbhwLK71iNp/wvWQ06SZkSjetP4ktYTJfl'' @
     ''9xFg8TTTbQcin6fhwRepEzWOrQkKz8a3OJb1VXTkJagcw7KBl1YRSZFMC0tH9NataZZfMtb1HWF/'' @
     ''TgXjD6PnaDMonG062+0OsFygls0GT8OMyk4i2GoJcLOa19pkYnDXWyv9zp9HPH37HlmBvsqak7uG'' @
     ''Yguyb1i3ZXoKrVp/beinE0use5N8AAMAAwjVv0o/zOcXsDiLzCdJ68FIrZlpsj9F7htgX9WHeFdq'' @
     ''xOzBtYcn8/ErMZSIGp7LneCyjOeyByMNjpMP4bznXiVsJrHHKEm5PKU2ZMqCQGQ8UUxHHKCkpCTi'' @
     ''TPLMyAo5kz7HTHROE5fW/B6d4Fv01R3AosAe2j9DPEJCKBkZFjOVhyW+/NnUqGlgfWN4+skcJguN'' @
     ''5A+RVh542doF32dUqFrlxvp6877brTo9ZfNqq8l0MbG75MLS9uDkfKYCA0UvXWEDBkZv5SEXMv/s'' @
     ''rbpyw5vnvIzlu8X3EmssQ5s6QAAAAAbd9uHXZaGT2cvhRs7reawctIXtX1s3kTqM9YV+/wCpOVv3'' @
     ''J/mqxegJEVkQc/z5yCb0KIBBMcoIm+ujhpQhdJoDBgAFAkANAwAGAAkDAQAAAAAAAAAHBAMFBAIK'' @
     ''DBAnAAAAAAAABg==''"

definition other_payer_message :: message where
  "other_payer_message =
     \<lparr>header = \<lparr>num_required_signatures = 3, num_readonly_signed_accounts = 0,
                num_readonly_unsigned_accounts = 3\<rparr>,
      account_keys = [alice_key, bob_key, carol_key, source_account, destination_account, usdc_mint_key, COMPUTE_BUDGET_PROGRAM, SPL_TOKEN_PROGRAM],
      recent_blockhash = example_blockhash,
      instructions =
        [\<lparr>program_id_index = 6, accounts = [], data = [2, 64, 13, 3, 0]\<rparr>,
         \<lparr>program_id_index = 6, accounts = [], data = [3, 1, 0, 0, 0, 0, 0, 0, 0]\<rparr>,
         \<lparr>program_id_index = 7, accounts = [3, 5, 4, 2], data = [12, 16, 39, 0, 0, 0, 0, 0, 0, 6]\<rparr>]\<rparr>"

definition other_payer_tx :: transaction where
  "other_payer_tx =
     \<lparr>signatures = [[17, 106, 251, 121, 59, 182, 159, 51, 98, 181, 39, 120, 140, 0, 184, 89,
                    245, 113, 218, 14, 117, 78, 193, 220, 196, 172, 26, 45, 88, 88, 70, 91,
                    135, 2, 202, 239, 88, 141, 167, 252, 47, 89, 13, 58, 73, 153, 18, 141,
                    235, 79, 226, 75, 88, 76, 151, 229, 247, 17, 96, 241, 52, 211, 109, 7],
                   [34, 159, 167, 225, 193, 23, 169, 19, 53, 142, 173, 9, 10, 207, 198, 183,
                    56, 150, 245, 85, 116, 228, 37, 168, 28, 195, 178, 129, 151, 86, 17, 73,
                    145, 76, 11, 75, 71, 244, 214, 173, 105, 150, 95, 50, 214, 245, 29, 97,
                    127, 78, 5, 227, 15, 163, 231, 104, 51, 40, 156, 109, 58, 219, 237, 14],
                   [176, 92, 160, 150, 205, 6, 79, 195, 140, 202, 78, 34, 216, 106, 9, 112,
                    179, 154, 215, 218, 100, 98, 112, 215, 91, 43, 253, 206, 159, 71, 60, 125,
                    251, 30, 89, 129, 190, 202, 154, 147, 187, 134, 98, 11, 178, 111, 88, 183,
                    101, 122, 10, 173, 90, 127, 109, 232, 167, 19, 75, 172, 123, 147, 124, 0]],
      message = other_payer_message\<rparr>"

text \<open>
  Two compute-unit-price instructions, of 1000000 and of 0, and no limit instruction.
\<close>

definition two_prices_header :: string where
  "two_prices_header =
     ''AgAAAAAAAAAAAAAAAAAAAAAAAAAAAAAAAAAAAAAAAAAAAAAAAAAAAAAAAAAAAAAAAAAAAAAAAAAA'' @
     ''AAAAAAAAAACdp7SzF7LqsSMaNvmbMaavIrlBCPUNO5DEmB75r+Ai5IknZ3NyumBSRKi1HUD3MBKe'' @
     ''wy1aXatu5xKZrqL7QkQKAgEDB/qn+WEujDb2Xh8R5V+gQWZ3PyIM1qE53Euu2LKotIkjpaCoclSt'' @
     ''CfpMksICrLSL8byv/BGpGHYNJqWlQdf11NbHTHROE5fW/B6d4Fv01R3AosAe2j9DPEJCKBkZFjOV'' @
     ''hyW+/NnUqGlgfWN4+skcJguN5A+RVh542doF32dUqFrlxvp6877brTo9ZfNqq8l0MbG75MLS9uDk'' @
     ''fKYCA0UvXWEDBkZv5SEXMv/srbpyw5vnvIzlu8X3EmssQ5s6QAAAAAbd9uHXZaGT2cvhRs7reawc'' @
     ''tIXtX1s3kTqM9YV+/wCpOVv3J/mqxegJEVkQc/z5yCb0KIBBMcoIm+ujhpQhdJoDBQAJA0BCDwAA'' @
     ''AAAABQAJAwAAAAAAAAAABgQCBAMBCgwQJwAAAAAAAAY=''"

definition two_prices_message :: message where
  "two_prices_message =
     \<lparr>header = \<lparr>num_required_signatures = 2, num_readonly_signed_accounts = 1,
                num_readonly_unsigned_accounts = 3\<rparr>,
      account_keys = [facilitator_key, sender_key, source_account, destination_account, usdc_mint_key, COMPUTE_BUDGET_PROGRAM, SPL_TOKEN_PROGRAM],
      recent_blockhash = example_blockhash,
      instructions =
        [\<lparr>program_id_index = 5, accounts = [], data = [3, 64, 66, 15, 0, 0, 0, 0, 0]\<rparr>,
         \<lparr>program_id_index = 5, accounts = [], data = [3, 0, 0, 0, 0, 0, 0, 0, 0]\<rparr>,
         \<lparr>program_id_index = 6, accounts = [2, 4, 3, 1], data = [12, 16, 39, 0, 0, 0, 0, 0, 0, 6]\<rparr>]\<rparr>"

definition two_prices_tx :: transaction where
  "two_prices_tx =
     \<lparr>signatures = [replicate 64 0,
                   [157, 167, 180, 179, 23, 178, 234, 177, 35, 26, 54, 249, 155, 49, 166, 175,
                    34, 185, 65, 8, 245, 13, 59, 144, 196, 152, 30, 249, 175, 224, 34, 228,
                    137, 39, 103, 115, 114, 186, 96, 82, 68, 168, 181, 29, 64, 247, 48, 18,
                    158, 195, 45, 90, 93, 171, 110, 231, 18, 153, 174, 162, 251, 66, 68, 10]],
      message = two_prices_message\<rparr>"

text \<open>
  The intended payment with a fifth account index on the transfer instruction.
\<close>

definition five_accounts_header :: string where
  "five_accounts_header =
     ''AgAAAAAAAAAAAAAAAAAAAAAAAAAAAAAAAAAAAAAAAAAAAAAAAAAAAAAAAAAAAAAAAAAAAAAAAAAA'' @
     ''AAAAAAAAAAAGXkfiYjiKAO4jA/1kGAQiLXiGSnC1vaRxj3JVnvz42O8pp7XhiAdO5rq+fSjtb1+7'' @
     ''xs2A5L2luTNqPFVFpFwKAgEDB/qn+WEujDb2Xh8R5V+gQWZ3PyIM1qE53Euu2LKotIkjpaCoclSt'' @
     ''CfpMksICrLSL8byv/BGpGHYNJqWlQdf11NbHTHROE5fW/B6d4Fv01R3AosAe2j9DPEJCKBkZFjOV'' @
     ''hyW+/NnUqGlgfWN4+skcJguN5A+RVh542doF32dUqFrlxvp6877brTo9ZfNqq8l0MbG75MLS9uDk'' @
     ''fKYCA0UvXWEDBkZv5SEXMv/srbpyw5vnvIzlu8X3EmssQ5s6QAAAAAbd9uHXZaGT2cvhRs7reawc'' @
     ''tIXtX1s3kTqM9YV+/wCpOVv3J/mqxegJEVkQc/z5yCb0KIBBMcoIm+ujhpQhdJoDBQAFAkANAwAF'' @
     ''AAkDAQAAAAAAAAAGBQIEAwECCgwQJwAAAAAAAAY=''"

definition five_accounts_message :: message where
  "five_accounts_message =
     \<lparr>header = \<lparr>num_required_signatures = 2, num_readonly_signed_accounts = 1,
                num_readonly_unsigned_accounts = 3\<rparr>,
      account_keys = [facilitator_key, sender_key, source_account, destination_account, usdc_mint_key, COMPUTE_BUDGET_PROGRAM, SPL_TOKEN_PROGRAM],
      recent_blockhash = example_blockhash,
      instructions =
        [\<lparr>program_id_index = 5, accounts = [], data = [2, 64, 13, 3, 0]\<rparr>,
         \<lparr>program_id_index = 5, accounts = [], data = [3, 1, 0, 0, 0, 0, 0, 0, 0]\<rparr>,
         \<lparr>program_id_index = 6, accounts = [2, 4, 3, 1, 2], data = [12, 16, 39, 0, 0, 0, 0, 0, 0, 6]\<rparr>]\<rparr>"

definition five_accounts_tx :: transaction where
  "five_accounts_tx =
     \<lparr>signatures = [replicate 64 0,
                   [6, 94, 71, 226, 98, 56, 138, 0, 238, 35, 3, 253, 100, 24, 4, 34,
                    45, 120, 134, 74, 112, 181, 189, 164, 113, 143, 114, 85, 158, 252, 248, 216,
                    239, 41, 167, 181, 225, 136, 7, 78, 230, 186, 190, 125, 40, 237, 111, 95,
                    187, 198, 205, 128, 228, 189, 165, 185, 51, 106, 60, 85, 69, 164, 92, 10]],
      message = five_accounts_message\<rparr>"

text \<open>
  The intended payment as a version-0 transaction.
\<close>

definition versioned_header :: string where
  "versioned_header =
     ''AgAAAAAAAAAAAAAAAAAAAAAAAAAAAAAAAAAAAAAAAAAAAAAAAAAAAAAAAAAAAAAAAAAAAAAAAAAA'' @
     ''AAAAAAAAAADD93mIFZS5kgiw+uM+r2mRB/ygsOZ4UoQUfBXOwgT4Wj4C7eHPS1XTzGnS6DW4bDHJ'' @
     ''zjXMeKmefD3NBuxk30cNgAIBAwf6p/lhLow29l4fEeVfoEFmdz8iDNahOdxLrtiyqLSJI6WgqHJU'' @
     ''rQn6TJLCAqy0i/G8r/wRqRh2DSalpUHX9dTWx0x0ThOX1vweneBb9NUdwKLAHto/QzxCQigZGRYz'' @
     ''lYclvvzZ1KhpYH1jePrJHCYLjeQPkVYeeNnaBd9nVKha5cb6evO+2606PWXzaqvJdDGxu+TC0vbg'' @
     ''5HymAgNFL11hAwZGb+UhFzL/7K26csOb57yM5bvF9xJrLEObOkAAAAAG3fbh12Whk9nL4UbO63ms'' @
     ''HLSF7V9bN5E6jPWFfv8AqTlb9yf5qsXoCRFZEHP8+cgm9CiAQTHKCJvro4aUIXSaAwUABQJADQMA'' @
     ''BQAJAwEAAAAAAAAABgQCBAMBCgwQJwAAAAAAAAYA''"

definition versioned_message :: message_v0 where
  "versioned_message =
     \<lparr>header = \<lparr>num_required_signatures = 2, num_readonly_signed_accounts = 1,
                num_readonly_unsigned_accounts = 3\<rparr>,
      account_keys = [facilitator_key, sender_key, source_account, destination_account, usdc_mint_key, COMPUTE_BUDGET_PROGRAM, SPL_TOKEN_PROGRAM],
      recent_blockhash = example_blockhash,
      instructions =
        [\<lparr>program_id_index = 5, accounts = [], data = [2, 64, 13, 3, 0]\<rparr>,
         \<lparr>program_id_index = 5, accounts = [], data = [3, 1, 0, 0, 0, 0, 0, 0, 0]\<rparr>,
         \<lparr>program_id_index = 6, accounts = [2, 4, 3, 1], data = [12, 16, 39, 0, 0, 0, 0, 0, 0, 6]\<rparr>],
      address_table_lookups = []\<rparr>"

definition versioned_tx :: versioned_transaction where
  "versioned_tx =
     \<lparr>vsignatures = [replicate 64 0,
                   [195, 247, 121, 136, 21, 148, 185, 146, 8, 176, 250, 227, 62, 175, 105, 145,
                    7, 252, 160, 176, 230, 120, 82, 132, 20, 124, 21, 206, 194, 4, 248, 90,
                    62, 2, 237, 225, 207, 75, 85, 211, 204, 105, 210, 232, 53, 184, 108, 49,
                    201, 206, 53, 204, 120, 169, 158, 124, 61, 205, 6, 236, 100, 223, 71, 13]],
      vmessage = V0Message versioned_message\<rparr>"

section \<open>Lemmas about the verifier\<close>

lemma exn_bind_Inr [simp]: "exn_bind (Inr x) f = f x"
  by (simp add: exn_bind_def)

lemma exn_bind_Inl [simp]: "exn_bind (Inl e) f = Inl e"
  by (simp add: exn_bind_def)

lemma exn_bind_eq_Inr: "exn_bind r f = Inr y \<longleftrightarrow> (\<exists>x. r = Inr x \<and> f x = Inr y)"
  by (cases r) simp_all

lemma exn_bindE:
  assumes "exn_bind r f = Inr y"
  obtains x where "r = Inr x" and "f x = Inr y"
  using assms by (auto simp: exn_bind_eq_Inr)

lemma list_index_eq_Inr: "list_index xs i = Inr x \<longleftrightarrow> i < length xs \<and> xs ! i = x"
  by (simp add: list_index_def)

text \<open>The fee payer loops answer \<open>False\<close> exactly when every index is in range and names another key.\<close>

lemma fee_payer_in_accounts_False:
  "fee_payer_in_accounts keys fp as = Inr False \<longleftrightarrow>
     (\<forall>a \<in> set as. unat a < length keys \<and> keys ! unat a \<noteq> fp)"
  by (induction as) (auto simp: exn_bind_eq_Inr list_index_eq_Inr)

lemma fee_payer_in_instructions_False:
  "fee_payer_in_instructions keys fp ixs = Inr False \<longleftrightarrow>
     (\<forall>ix \<in> set ixs. \<forall>a \<in> set (accounts ix). unat a < length keys \<and> keys ! unat a \<noteq> fp)"
  by (induction ixs) (auto simp: exn_bind_eq_Inr fee_payer_in_accounts_False)

text \<open>What an accepted transfer instruction has passed.\<close>

lemma verify_transfer_instruction_True:
  assumes "verify_transfer_instruction L cfg ix keys R = Inr (True, r)"
  shows "\<exists>program_id amount mint_key pay_to_key.
     list_index keys (unat (program_id_index ix)) = Inr program_id \<and>
     (program_id = SPL_TOKEN_PROGRAM \<or> program_id = TOKEN_2022_PROGRAM) \<and>
     10 \<le> length (data ix) \<and> unat (data ix ! 0) = 12 \<and>
     unpack_u64_le (slice (data ix) 1 9) = Inr amount \<and>
     py_int L (max_amount_required R) = Inr (int amount) \<and>
     int (unat (data ix ! 9)) = usdc_decimals cfg \<and>
     4 \<le> length (accounts ix) \<and>
     pubkey_from_string (asset R) = Inr mint_key \<and>
     list_index keys (unat (accounts ix ! 1)) = Inr mint_key \<and>
     pubkey_from_string (pay_to R) = Inr pay_to_key \<and>
     list_index keys (unat (accounts ix ! 2)) =
       Inr (get_associated_token_address L pay_to_key mint_key program_id)"
  using assms
  by (auto simp: verify_transfer_instruction_def exn_bind_eq_Inr Let_def split: if_splits)

lemma verify_transfer_instruction_reason:
  assumes "verify_transfer_instruction L cfg ix keys R = Inr (False, r)"
  shows "r \<noteq> None"
  using assms
  by (auto simp: verify_transfer_instruction_def exn_bind_eq_Inr Let_def split: if_splits)

lemma verify_compute_price_reason:
  assumes "verify_compute_price cfg ix = Inr (False, r)"
  shows "r \<noteq> None"
  using assms
  by (auto simp: verify_compute_price_def exn_bind_eq_Inr Let_def split: if_splits)

text \<open>What a valid answer of \<open>verify_message\<close> has passed.\<close>

lemma verify_message_valid:
  assumes vm: "verify_message L cfg ixs keys R = Inr r" and ok: "is_valid r"
  shows "length ixs = 3 \<and>
     (\<exists>p. compute_budget_scan ixs keys [0, 1] (0, None) = Inr (2, p)) \<and>
     (\<exists>tr. verify_transfer_instruction L cfg (ixs ! 2) keys R = Inr (True, tr)) \<and>
     (\<exists>fp. pubkey_from_string (fee_payer (extra R)) = Inr fp \<and>
           fee_payer_in_instructions keys fp ixs = Inr False)"
proof -
  have len: "length ixs = 3"
    using vm ok by (cases "length ixs = 3") (auto simp: verify_message_def invalid_def)
  from vm len obtain c p where
    scan: "compute_budget_scan ixs keys [0, 1] (0, None) = Inr (c, p)" and
    s1: "(if c \<noteq> 2
          then Inr (invalid (Some ''First 2 instructions must be ComputeBudget instructions''))
          else
     exn_bind (case p of
                 None \<Rightarrow> Inr (True, None)
               | Some idx \<Rightarrow> exn_bind (list_index ixs idx) (verify_compute_price cfg))
       (\<lambda>(price_valid, price_reason).
     if \<not> price_valid then Inr (invalid price_reason)
     else
     exn_bind (list_index ixs 2) (\<lambda>ix2.
     exn_bind (verify_transfer_instruction L cfg ix2 keys R)
       (\<lambda>(transfer_valid, transfer_reason).
     if \<not> transfer_valid then Inr (invalid transfer_reason)
     else
     exn_bind (pubkey_from_string (fee_payer (extra R))) (\<lambda>fee_payer_pubkey.
     exn_bind (fee_payer_in_instructions keys fee_payer_pubkey ixs) (\<lambda>found.
       if found
       then Inr (invalid (Some ''Fee payer must not be in instruction accounts''))
       else Inr valid)))))) = Inr r"
    unfolding verify_message_def by (auto elim!: exn_bindE)
  have c2: "c = 2" using s1 ok by (cases "c = 2") (auto simp: invalid_def)
  from s1 c2 obtain pv pr where
    s2: "(if \<not> pv then Inr (invalid pr)
     else
     exn_bind (list_index ixs 2) (\<lambda>ix2.
     exn_bind (verify_transfer_instruction L cfg ix2 keys R)
       (\<lambda>(transfer_valid, transfer_reason).
     if \<not> transfer_valid then Inr (invalid transfer_reason)
     else
     exn_bind (pubkey_from_string (fee_payer (extra R))) (\<lambda>fee_payer_pubkey.
     exn_bind (fee_payer_in_instructions keys fee_payer_pubkey ixs) (\<lambda>found.
       if found
       then Inr (invalid (Some ''Fee payer must not be in instruction accounts''))
       else Inr valid))))) = Inr r"
    by (auto elim!: exn_bindE)
  have pv: pv using s2 ok by (cases pv) (auto simp: invalid_def)
  from s2 pv len obtain tv tr where
    vti: "verify_transfer_instruction L cfg (ixs ! 2) keys R = Inr (tv, tr)" and
    s3: "(if \<not> tv then Inr (invalid tr)
     else
     exn_bind (pubkey_from_string (fee_payer (extra R))) (\<lambda>fee_payer_pubkey.
     exn_bind (fee_payer_in_instructions keys fee_payer_pubkey ixs) (\<lambda>found.
       if found
       then Inr (invalid (Some ''Fee payer must not be in instruction accounts''))
       else Inr valid))) = Inr r"
    by (auto elim!: exn_bindE simp: list_index_eq_Inr)
  have tv: tv using s3 ok by (cases tv) (auto simp: invalid_def)
  from s3 tv have
    "exn_bind (pubkey_from_string (fee_payer (extra R))) (\<lambda>fee_payer_pubkey.
     exn_bind (fee_payer_in_instructions keys fee_payer_pubkey ixs) (\<lambda>found.
       if found
       then Inr (invalid (Some ''Fee payer must not be in instruction accounts''))
       else Inr valid)) = Inr r"
    by simp
  then obtain fp where
    fp: "pubkey_from_string (fee_payer (extra R)) = Inr fp" and
    s3': "exn_bind (fee_payer_in_instructions keys fp ixs) (\<lambda>found.
       if found
       then Inr (invalid (Some ''Fee payer must not be in instruction accounts''))
       else Inr valid) = Inr r"
    by (rule exn_bindE)
  from s3' obtain found where
    fpi: "fee_payer_in_instructions keys fp ixs = Inr found" and
    s4: "(if found
       then Inr (invalid (Some ''Fee payer must not be in instruction accounts''))
       else Inr valid) = (Inr r :: exn + verify_response)"
    by (rule exn_bindE)
  have "\<not> found" using s4 ok by (cases found) (auto simp: invalid_def)
  with len scan c2 vti tv fp fpi show ?thesis by auto
qed

text \<open>\<open>verify\<close> in terms of what the header decodes to.\<close>

lemma verify_try_decode:
  "verify_try L cfg h R = exn_bind (decode_payment L h) (\<lambda>d. verify_decoded L cfg d R)"
  by (cases "b64decode L h") (simp_all add: verify_try_def decode_payment_def)

lemma verify_decoded_supported:
  assumes "supported d"
  shows "verify_decoded L cfg d R =
     verify_message L cfg (instructions (decoded_message d)) (account_keys (decoded_message d)) R"
  using assms
  by (cases d) (auto simp: message.truncate_def split: versioned_message.splits)

lemma verify_decoded_valid:
  assumes "verify_decoded L cfg d R = Inr r" and "is_valid r"
  shows "supported d"
  using assms by (cases d) (auto simp: invalid_def split: versioned_message.splits)

lemma verify_valid:
  assumes "is_valid (verify L cfg h R)"
  shows "\<exists>d. decode_payment L h = Inr d \<and> supported d \<and>
     verify_message L cfg (instructions (decoded_message d))
       (account_keys (decoded_message d)) R = Inr (verify L cfg h R)"
proof -
  from assms obtain r where r: "verify_try L cfg h R = Inr r" and v: "verify L cfg h R = r"
    by (auto simp: verify_def invalid_def split: sum.splits)
  from r obtain d where d: "decode_payment L h = Inr d" and vd: "verify_decoded L cfg d R = Inr r"
    by (auto simp: verify_try_decode exn_bind_eq_Inr)
  from assms v have ok: "is_valid r" by simp
  from vd ok have sup: "supported d" by (rule verify_decoded_valid)
  from vd sup have "verify_message L cfg (instructions (decoded_message d))
       (account_keys (decoded_message d)) R = Inr r"
    by (simp add: verify_decoded_supported)
  with d v sup show ?thesis by auto
qed

lemma verify_supported:
  assumes "decode_payment L h = Inr d" and "supported d"
  shows "verify L cfg h R =
     (case verify_message L cfg (instructions (decoded_message d))
             (account_keys (decoded_message d)) R of
        Inl e \<Rightarrow> invalid (Some (str_exn e))
      | Inr r \<Rightarrow> r)"
  using assms by (simp add: verify_def verify_try_decode verify_decoded_supported)

text \<open>A refusal of \<open>verify_message\<close> carries a reason.\<close>

lemma verify_message_reason:
  assumes "verify_message L cfg ixs keys R = Inr r" and "\<not> is_valid r"
  shows "invalid_reason r \<noteq> None"
  using assms
  unfolding verify_message_def
  by (auto simp: exn_bind_eq_Inr invalid_def valid_def
           split: if_splits option.splits
           dest: verify_compute_price_reason verify_transfer_instruction_reason)

lemma verify_decoded_drop_signatures:
  "verify_decoded L cfg (drop_signatures d) R = verify_decoded L cfg d R"
  by (cases d) simp_all

text \<open>Nor does it read the header of the message.\<close>

lemma verify_decoded_with_header:
  "verify_decoded L cfg (with_header hdr d) R = verify_decoded L cfg d R"
  by (cases d) (auto split: versioned_message.splits)

text \<open>
  The facts about a payment that \<open>verify\<close> accepts, gathered once: the header decodes,
  the message has three instructions, the third is an accepted transfer, and the fee
  payer's key is at no account index of any instruction.
\<close>

lemma verify_accepts:
  assumes "is_valid (verify L cfg h R)"
  shows "\<exists>d fp tr.
     decode_payment L h = Inr d \<and> supported d \<and>
     length (instructions (decoded_message d)) = 3 \<and>
     verify_transfer_instruction L cfg (instructions (decoded_message d) ! 2)
       (account_keys (decoded_message d)) R = Inr (True, tr) \<and>
     pubkey_from_string (fee_payer (extra R)) = Inr fp \<and>
     (\<forall>ix \<in> set (instructions (decoded_message d)). \<forall>a \<in> set (accounts ix).
        unat a < length (account_keys (decoded_message d)) \<and>
        account_keys (decoded_message d) ! unat a \<noteq> fp)"
proof -
  from verify_valid [OF assms] obtain d where
    d: "decode_payment L h = Inr d" and sup: "supported d" and
    vm: "verify_message L cfg (instructions (decoded_message d))
           (account_keys (decoded_message d)) R = Inr (verify L cfg h R)"
    by blast
  from verify_message_valid [OF vm assms] d sup show ?thesis
    by (auto simp: fee_payer_in_instructions_False)
qed

lemma verify_invalid_reason:
  assumes "\<not> is_valid (verify L cfg h R)"
  shows "invalid_reason (verify L cfg h R) \<noteq> None"
proof (cases "verify_try L cfg h R")
  case (Inl e)
  then show ?thesis by (simp add: verify_def invalid_def)
next
  case (Inr r)
  then obtain d where vd: "verify_decoded L cfg d R = Inr r"
    by (auto simp: verify_try_decode exn_bind_eq_Inr)
  from Inr have v: "verify L cfg h R = r" by (simp add: verify_def)
  with assms have bad: "\<not> is_valid r" by simp
  have "invalid_reason r \<noteq> None"
  proof (cases "supported d")
    case True
    with vd have "verify_message L cfg (instructions (decoded_message d))
        (account_keys (decoded_message d)) R = Inr r"
      by (simp add: verify_decoded_supported)
    then show ?thesis using bad by (rule verify_message_reason)
  next
    case False
    with vd show ?thesis
      by (cases d) (auto simp: invalid_def split: versioned_message.splits)
  qed
  with v show ?thesis by simp
qed

text \<open>A payment that reaches the comparison of the amount with another amount than required.\<close>

lemma amount_mismatch:
  assumes reach: "reaches_amount_check cfg ixs keys"
    and amount: "unpack_u64_le (slice (data (ixs ! 2)) 1 9) = Inr amount"
    and required: "py_int L (max_amount_required R) = Inr required"
    and differ: "int amount \<noteq> required"
  shows "verify_message L cfg ixs keys R =
     Inr (invalid (Some (''Amount '' @ str_int (int amount) @
                         '' does not match required '' @ str_int required)))"
proof -
  from reach have len: "length ixs = 3"
    by (simp add: reaches_amount_check_def)
  from reach obtain p where
    scan: "compute_budget_scan ixs keys [0, 1] (0, None) = Inr (2, p)" and
    price: "(case p of None \<Rightarrow> True
             | Some idx \<Rightarrow>
                 (case verify_compute_price cfg (ixs ! idx) of
                    Inl e \<Rightarrow> False
                  | Inr (price_valid, price_reason) \<Rightarrow> price_valid))"
    by (cases "compute_budget_scan ixs keys [0, 1] (0, None)")
       (auto simp: reaches_amount_check_def simp del: compute_budget_scan.simps)
  from reach obtain program_id where
    prog: "list_index keys (unat (program_id_index (ixs ! 2))) = Inr program_id" and
    token: "program_id = SPL_TOKEN_PROGRAM \<or> program_id = TOKEN_2022_PROGRAM" and
    dlen: "10 \<le> length (data (ixs ! 2))" and disc: "unat (data (ixs ! 2) ! 0) = 12"
    by (auto simp: reaches_amount_check_def split: sum.splits)
  have transfer: "verify_transfer_instruction L cfg (ixs ! 2) keys R =
     Inr (False, Some (''Amount '' @ str_int (int amount) @
                       '' does not match required '' @ str_int required))"
    using prog token dlen disc amount required differ
    by (auto simp: verify_transfer_instruction_def Let_def)
  have idx: "p = Some idx \<Longrightarrow> idx < 3" for idx
    using scan len
    by (auto simp: exn_bind_eq_Inr list_index_eq_Inr split: if_splits)
  show ?thesis
  proof (cases p)
    case None
    with len scan transfer show ?thesis
      by (simp add: verify_message_def list_index_def invalid_def)
  next
    case (Some idx)
    with price obtain pr where "verify_compute_price cfg (ixs ! idx) = Inr (True, pr)"
      by (auto split: sum.splits)
    with Some idx [OF Some] len scan transfer show ?thesis
      by (simp add: verify_message_def list_index_def invalid_def)
  qed
qed

text \<open>\<open>settle\<close> on a payment that \<open>verify\<close> accepts: what is left is \<open>submit\<close>.\<close>

lemma settle_valid:
  assumes "is_valid (verify L (facilitator_settings self) h R)"
    and "facilitator_fee_payer self = Some kp"
    and "decode_payment L h = Inr d"
  shows "settle L C node self h R = submit L C node self kp d"
  using assms
  by (cases "b64decode L h") (simp_all add: settle_def decode_payment_def)

section \<open>Lemmas about the requirement builder\<close>





section \<open>Running the model on the examples\<close>

text \<open>Rules that let the simplifier run the recursions on numerals.\<close>

lemma read_many_numeral:
  "read_many (numeral k) rd bs =
     (case rd bs of
        None \<Rightarrow> None
      | Some (x, rest) \<Rightarrow>
          (case read_many (pred_numeral k) rd rest of
             None \<Rightarrow> None
           | Some (xs, rest') \<Rightarrow> Some (x # xs, rest')))"
  by (simp add: numeral_eq_Suc)

lemma replicate_numeral:
  "replicate (numeral k) x = x # replicate (pred_numeral k) x"
  by (simp add: numeral_eq_Suc)

lemma be_bytes_0: "be_bytes 0 = []"
  by (subst be_bytes.simps) simp

lemma be_bytes_numeral:
  "be_bytes (numeral k) = be_bytes (numeral k div 256) @ [word_of_nat (numeral k mod 256)]"
  by (subst be_bytes.simps) simp

lemma str_nat_numeral:
  "str_nat (numeral k) =
     (if (numeral k :: nat) < 10 then [digit_char (numeral k)]
      else str_nat (numeral k div 10) @ [digit_char (numeral k mod 10)])"
  by (subst str_nat.simps) simp

lemma str_nat_small: "str_nat 0 = ''0''" "str_nat (Suc 0) = ''1''"
  by (simp_all add: str_nat.simps digit_char_def)

lemmas numeral_recursion =
  read_many_numeral replicate_numeral be_bytes_0 be_bytes_numeral str_nat_numeral str_nat_small

text \<open>
  The value of each character of the base64 alphabet, and a congruence rule that keeps
  the simplifier from walking through the rest of the text at every step of the scan.
\<close>

lemma b64_digit_table:
  "b64_digit (CHR ''A'') = Some 0"
  "b64_digit (CHR ''B'') = Some 1"
  "b64_digit (CHR ''C'') = Some 2"
  "b64_digit (CHR ''D'') = Some 3"
  "b64_digit (CHR ''E'') = Some 4"
  "b64_digit (CHR ''F'') = Some 5"
  "b64_digit (CHR ''G'') = Some 6"
  "b64_digit (CHR ''H'') = Some 7"
  "b64_digit (CHR ''I'') = Some 8"
  "b64_digit (CHR ''J'') = Some 9"
  "b64_digit (CHR ''K'') = Some 10"
  "b64_digit (CHR ''L'') = Some 11"
  "b64_digit (CHR ''M'') = Some 12"
  "b64_digit (CHR ''N'') = Some 13"
  "b64_digit (CHR ''O'') = Some 14"
  "b64_digit (CHR ''P'') = Some 15"
  "b64_digit (CHR ''Q'') = Some 16"
  "b64_digit (CHR ''R'') = Some 17"
  "b64_digit (CHR ''S'') = Some 18"
  "b64_digit (CHR ''T'') = Some 19"
  "b64_digit (CHR ''U'') = Some 20"
  "b64_digit (CHR ''V'') = Some 21"
  "b64_digit (CHR ''W'') = Some 22"
  "b64_digit (CHR ''X'') = Some 23"
  "b64_digit (CHR ''Y'') = Some 24"
  "b64_digit (CHR ''Z'') = Some 25"
  "b64_digit (CHR ''a'') = Some 26"
  "b64_digit (CHR ''b'') = Some 27"
  "b64_digit (CHR ''c'') = Some 28"
  "b64_digit (CHR ''d'') = Some 29"
  "b64_digit (CHR ''e'') = Some 30"
  "b64_digit (CHR ''f'') = Some 31"
  "b64_digit (CHR ''g'') = Some 32"
  "b64_digit (CHR ''h'') = Some 33"
  "b64_digit (CHR ''i'') = Some 34"
  "b64_digit (CHR ''j'') = Some 35"
  "b64_digit (CHR ''k'') = Some 36"
  "b64_digit (CHR ''l'') = Some 37"
  "b64_digit (CHR ''m'') = Some 38"
  "b64_digit (CHR ''n'') = Some 39"
  "b64_digit (CHR ''o'') = Some 40"
  "b64_digit (CHR ''p'') = Some 41"
  "b64_digit (CHR ''q'') = Some 42"
  "b64_digit (CHR ''r'') = Some 43"
  "b64_digit (CHR ''s'') = Some 44"
  "b64_digit (CHR ''t'') = Some 45"
  "b64_digit (CHR ''u'') = Some 46"
  "b64_digit (CHR ''v'') = Some 47"
  "b64_digit (CHR ''w'') = Some 48"
  "b64_digit (CHR ''x'') = Some 49"
  "b64_digit (CHR ''y'') = Some 50"
  "b64_digit (CHR ''z'') = Some 51"
  "b64_digit (CHR ''0'') = Some 52"
  "b64_digit (CHR ''1'') = Some 53"
  "b64_digit (CHR ''2'') = Some 54"
  "b64_digit (CHR ''3'') = Some 55"
  "b64_digit (CHR ''4'') = Some 56"
  "b64_digit (CHR ''5'') = Some 57"
  "b64_digit (CHR ''6'') = Some 58"
  "b64_digit (CHR ''7'') = Some 59"
  "b64_digit (CHR ''8'') = Some 60"
  "b64_digit (CHR ''9'') = Some 61"
  "b64_digit (CHR ''+'') = Some 62"
  "b64_digit (CHR ''/'') = Some 63"
  by (simp_all add: b64_digit_def)

lemma b64_scan_cong:
  "quad_pos = quad_pos' \<Longrightarrow> leftchar = leftchar' \<Longrightarrow> pads = pads' \<Longrightarrow>
   b64_scan s quad_pos leftchar pads = b64_scan s quad_pos' leftchar' pads'"
  by simp

lemmas decoder_defs =
  decode_payment_def parse_transaction_def ref_lib_def ref_b64decode_def b64_emit_def
  b64_digit_table ref_legacy_from_bytes_def ref_versioned_from_bytes_def
  read_versioned_message_def read_message_def read_lookup_def read_instruction_def
  read_shortvec_def read_byte_vec_def read_bytes_def message.extend_def numeral_recursion

lemmas example_keys =
  facilitator_key_def sender_key_def merchant_key_def source_account_def usdc_mint_key_def
  destination_account_def alice_key_def bob_key_def carol_key_def example_blockhash_def
  COMPUTE_BUDGET_PROGRAM_def SPL_TOKEN_PROGRAM_def TOKEN_2022_PROGRAM_def

lemmas int_eval =
  ref_py_int_def py_strip_def py_space_def unsigned_part_def is_sign_def is_negative_def
  decimal_digit_def

lemmas address_eval =
  pubkey_from_string_def b58decode_def b58_digit_def numeral_recursion

text \<open>
  The program ids are what their base58 text decodes to, and so are the example
  addresses and the destination of the examples.
\<close>

lemma program_ids:
  "pubkey_from_string ''ComputeBudget111111111111111111111111111111'' = Inr COMPUTE_BUDGET_PROGRAM"
  "pubkey_from_string ''TokenkegQfeZyiNwAJbNbGKPFXCWuBvf9Ss623VQ5DA'' = Inr SPL_TOKEN_PROGRAM"
  "pubkey_from_string ''TokenzQdBNbLqP5VEhdkAS6EPFLC1PHnBqCXEpPxuEb'' = Inr TOKEN_2022_PROGRAM"
  "pubkey_from_string ''ATokenGPvbdGVxr1b2hvZbsiqW5xWH25efTNsLJA8knL'' = Inr ASSOCIATED_TOKEN_PROGRAM"
  by (simp_all add: address_eval COMPUTE_BUDGET_PROGRAM_def SPL_TOKEN_PROGRAM_def
        TOKEN_2022_PROGRAM_def ASSOCIATED_TOKEN_PROGRAM_def)

lemma example_addresses:
  "pubkey_from_string (fee_payer (extra example_requirements)) = Inr facilitator_key"
  "pubkey_from_string (pay_to example_requirements) = Inr merchant_key"
  "pubkey_from_string (asset example_requirements) = Inr usdc_mint_key"
  by (simp_all add: address_eval example_requirements_def default_settings_def
        facilitator_address_def merchant_address_def facilitator_key_def merchant_key_def
        usdc_mint_key_def)

lemma destination_address:
  "pubkey_from_string ''3YLzjDBfYMnCY7XFymBUxLALyxTKodcWhwu9gQTfssmv'' = Inr destination_account"
  by (simp add: address_eval destination_account_def)

lemma example_amount: "max_amount_required example_requirements = ''10000''"
  by (simp add: example_requirements_def)

lemmas verify_eval =
  verify_message_def is_compute_budget_instruction_def list_index_def verify_compute_price_def
  unpack_u64_le_def slice_def verify_transfer_instruction_def Let_def
  get_associated_token_address_def ref_lib_def ref_find_program_address_def
  known_program_addresses_def int_eval example_addresses example_amount default_settings_def
  example_keys ASSOCIATED_TOKEN_PROGRAM_def invalid_def valid_def str_int_def digit_char_def
  numeral_recursion

text \<open>What each example header decodes to.\<close>

lemma happy_decode: "decode_payment ref_lib happy_header = Inr (DecodedLegacy happy_tx)"
  unfolding happy_header_def append.simps
  by (simp add: decoder_defs happy_tx_def happy_message_def example_keys cong: b64_scan_cong)

lemma unsigned_decode:
  "decode_payment ref_lib unsigned_header = Inr (DecodedLegacy unsigned_tx)"
  unfolding unsigned_header_def append.simps
  by (simp add: decoder_defs unsigned_tx_def unsigned_message_def example_keys cong: b64_scan_cong)

lemma one_signer_decode:
  "decode_payment ref_lib one_signer_header = Inr (DecodedLegacy one_signer_tx)"
  unfolding one_signer_header_def append.simps
  by (simp add: decoder_defs one_signer_tx_def one_signer_message_def example_keys cong: b64_scan_cong)

lemma other_payer_decode:
  "decode_payment ref_lib other_payer_header = Inr (DecodedLegacy other_payer_tx)"
  unfolding other_payer_header_def append.simps
  by (simp add: decoder_defs other_payer_tx_def other_payer_message_def example_keys cong: b64_scan_cong)

lemma two_prices_decode:
  "decode_payment ref_lib two_prices_header = Inr (DecodedLegacy two_prices_tx)"
  unfolding two_prices_header_def append.simps
  by (simp add: decoder_defs two_prices_tx_def two_prices_message_def example_keys cong: b64_scan_cong)

lemma five_accounts_decode:
  "decode_payment ref_lib five_accounts_header = Inr (DecodedLegacy five_accounts_tx)"
  unfolding five_accounts_header_def append.simps
  by (simp add: decoder_defs five_accounts_tx_def five_accounts_message_def example_keys cong: b64_scan_cong)

lemma versioned_decode:
  "decode_payment ref_lib versioned_header = Inr (DecodedVersioned versioned_tx)"
  unfolding versioned_header_def append.simps
  by (simp add: decoder_defs versioned_tx_def versioned_message_def example_keys cong: b64_scan_cong)

text \<open>What \<open>verify\<close> answers on them.\<close>

lemma happy_valid: "verify ref_lib default_settings happy_header example_requirements = valid"
proof -
  have "verify_message ref_lib default_settings (instructions happy_message)
          (account_keys happy_message) example_requirements = Inr valid"
    by (simp add: happy_message_def verify_eval)
  then show ?thesis
    by (simp add: verify_supported [OF happy_decode] happy_tx_def)
qed

lemma unsigned_valid:
  "verify ref_lib default_settings unsigned_header example_requirements = valid"
proof -
  have "verify_message ref_lib default_settings (instructions unsigned_message)
          (account_keys unsigned_message) example_requirements = Inr valid"
    by (simp add: unsigned_message_def verify_eval)
  then show ?thesis
    by (simp add: verify_supported [OF unsigned_decode] unsigned_tx_def)
qed

lemma other_payer_valid:
  "verify ref_lib default_settings other_payer_header example_requirements = valid"
proof -
  have "verify_message ref_lib default_settings (instructions other_payer_message)
          (account_keys other_payer_message) example_requirements = Inr valid"
    by (simp add: other_payer_message_def verify_eval)
  then show ?thesis
    by (simp add: verify_supported [OF other_payer_decode] other_payer_tx_def)
qed

lemma two_prices_valid:
  "verify ref_lib default_settings two_prices_header example_requirements = valid"
proof -
  have "verify_message ref_lib default_settings (instructions two_prices_message)
          (account_keys two_prices_message) example_requirements = Inr valid"
    by (simp add: two_prices_message_def verify_eval)
  then show ?thesis
    by (simp add: verify_supported [OF two_prices_decode] two_prices_tx_def)
qed

lemma five_accounts_valid:
  "verify ref_lib default_settings five_accounts_header example_requirements = valid"
proof -
  have "verify_message ref_lib default_settings (instructions five_accounts_message)
          (account_keys five_accounts_message) example_requirements = Inr valid"
    by (simp add: five_accounts_message_def verify_eval)
  then show ?thesis
    by (simp add: verify_supported [OF five_accounts_decode] five_accounts_tx_def)
qed

lemma versioned_valid:
  "verify ref_lib default_settings versioned_header example_requirements = valid"
proof -
  have "verify_message ref_lib default_settings (instructions versioned_message)
          (account_keys versioned_message) example_requirements = Inr valid"
    by (simp add: versioned_message_def verify_eval)
  then show ?thesis
    by (simp add: verify_supported [OF versioned_decode] versioned_tx_def
          message.truncate_def)
qed

text \<open>The intended payment against a requirement of 9999 units, and under a price limit of 0.\<close>

lemma wrong_amount:
  "verify ref_lib default_settings happy_header requirements_9999 =
     invalid (Some ''Amount 10000 does not match required 9999'')"
proof -
  have "verify_message ref_lib default_settings (instructions happy_message)
          (account_keys happy_message) requirements_9999 =
        Inr (invalid (Some ''Amount 10000 does not match required 9999''))"
    by (simp add: happy_message_def requirements_9999_def verify_eval)
  then show ?thesis
    by (simp add: verify_supported [OF happy_decode] happy_tx_def)
qed

lemma strict_price:
  "verify ref_lib strict_settings happy_header requirements_9999 =
     invalid (Some ''Compute unit price 1 exceeds max 0'')"
proof -
  have "verify_message ref_lib strict_settings (instructions happy_message)
          (account_keys happy_message) requirements_9999 =
        Inr (invalid (Some ''Compute unit price 1 exceeds max 0''))"
    by (simp add: happy_message_def requirements_9999_def strict_settings_def verify_eval)
  then show ?thesis
    by (simp add: verify_supported [OF happy_decode] happy_tx_def)
qed

text \<open>What the intended payment holds at the offsets the claims speak of.\<close>

lemma happy_amount:
  "unpack_u64_le (slice (data (instructions (decoded_message (DecodedLegacy happy_tx)) ! 2)) 1 9) =
     Inr 10000"
  by (simp add: happy_tx_def happy_message_def unpack_u64_le_def slice_def)

lemma happy_reaches_amount_check:
  "reaches_amount_check default_settings
     (instructions (decoded_message (DecodedLegacy happy_tx)))
     (account_keys (decoded_message (DecodedLegacy happy_tx)))"
  by (simp add: reaches_amount_check_def happy_tx_def happy_message_def verify_eval)

lemma required_9999: "py_int ref_lib (max_amount_required requirements_9999) = Inr 9999"
  by (simp add: requirements_9999_def ref_lib_def int_eval)









section \<open>The claims\<close>

text \<open>
  C1 (as amended). If \<open>verify\<close> answers valid and \<open>accountKeys[0]\<close> is the fee payer of
  the requirement, no instruction has 0 among its account indices. That
  \<open>accountKeys[0]\<close> is the fee payer is not part of what \<open>verify\<close> checks.
\<close>

theorem fee_payer_slot_unreferenced:
  assumes "is_valid (verify L cfg h R)"
  shows "\<exists>d fp.
     decode_payment L h = Inr d \<and>
     pubkey_from_string (fee_payer (extra R)) = Inr fp \<and>
     (account_keys (decoded_message d) ! 0 = fp \<longrightarrow>
        (\<forall>ix \<in> set (instructions (decoded_message d)). \<forall>a \<in> set (accounts ix). unat a \<noteq> 0))"
proof -
  from verify_accepts [OF assms] obtain d fp where
    d: "decode_payment L h = Inr d" and
    fp: "pubkey_from_string (fee_payer (extra R)) = Inr fp" and
    iso: "\<forall>ix \<in> set (instructions (decoded_message d)). \<forall>a \<in> set (accounts ix).
            unat a < length (account_keys (decoded_message d)) \<and>
            account_keys (decoded_message d) ! unat a \<noteq> fp"
    by blast
  have "\<forall>ix \<in> set (instructions (decoded_message d)). \<forall>a \<in> set (accounts ix). unat a \<noteq> 0"
    if "account_keys (decoded_message d) ! 0 = fp"
    using iso that by metis
  with d fp show ?thesis by blast
qed

theorem fee_payer_slot_unreferenced_witness:
  "is_valid (verify ref_lib default_settings happy_header example_requirements) \<and>
   (\<exists>d fp.
     decode_payment ref_lib happy_header = Inr d \<and>
     pubkey_from_string (fee_payer (extra example_requirements)) = Inr fp \<and>
     (account_keys (decoded_message d) ! 0 = fp \<longrightarrow>
        (\<forall>ix \<in> set (instructions (decoded_message d)). \<forall>a \<in> set (accounts ix). unat a \<noteq> 0)))"
  using fee_payer_slot_unreferenced [of ref_lib default_settings happy_header example_requirements]
  by (simp add: happy_valid valid_def)

text \<open>
  C1 as stated fails: \<open>verify\<close> accepts a payment whose \<open>accountKeys[0]\<close> is another key
  than the fee payer of the requirement. The payment is a transaction that Alice, Bob
  and Carol have signed and that does not name the facilitator at all.
\<close>

theorem fee_payer_position_counterexample:
  "is_valid (verify ref_lib default_settings other_payer_header example_requirements) \<and>
   decode_payment ref_lib other_payer_header = Inr (DecodedLegacy other_payer_tx) \<and>
   pubkey_from_string (fee_payer (extra example_requirements)) = Inr facilitator_key \<and>
   account_keys (message other_payer_tx) ! 0 = alice_key \<and>
   alice_key \<noteq> facilitator_key"
  by (simp add: other_payer_valid valid_def other_payer_decode example_addresses
        other_payer_tx_def other_payer_message_def alice_key_def facilitator_key_def)

text \<open>
  C2 (as amended). If \<open>verify\<close> answers valid, instruction 2 has at least four account
  indices, and the fourth names an account key of the transaction that is not the fee
  payer of the requirement. The number of required signatures is not constrained:
  \<open>verify\<close> gives two payments that differ only in the header of their message the same
  answer. Nor need \<open>accountKeys[1]\<close> be the account at the fourth index of the transfer.
\<close>

theorem transfer_authority_not_fee_payer:
  "(is_valid (verify L cfg h R) \<longrightarrow>
      (\<exists>d fp.
         decode_payment L h = Inr d \<and>
         pubkey_from_string (fee_payer (extra R)) = Inr fp \<and>
         length (instructions (decoded_message d)) = 3 \<and>
         4 \<le> length (accounts (instructions (decoded_message d) ! 2)) \<and>
         unat (accounts (instructions (decoded_message d) ! 2) ! 3)
           < length (account_keys (decoded_message d)) \<and>
         account_keys (decoded_message d)
           ! unat (accounts (instructions (decoded_message d) ! 2) ! 3) \<noteq> fp)) \<and>
   (\<forall>h' d hdr.
      decode_payment L h = Inr d \<and> decode_payment L h' = Inr (with_header hdr d) \<longrightarrow>
      verify L cfg h' R = verify L cfg h R)"
proof (intro conjI impI allI)
  assume ok: "is_valid (verify L cfg h R)"
  from verify_accepts [OF ok] obtain d fp tr where
    d: "decode_payment L h = Inr d" and
    len: "length (instructions (decoded_message d)) = 3" and
    vti: "verify_transfer_instruction L cfg (instructions (decoded_message d) ! 2)
            (account_keys (decoded_message d)) R = Inr (True, tr)" and
    fp: "pubkey_from_string (fee_payer (extra R)) = Inr fp" and
    iso: "\<forall>ix \<in> set (instructions (decoded_message d)). \<forall>a \<in> set (accounts ix).
            unat a < length (account_keys (decoded_message d)) \<and>
            account_keys (decoded_message d) ! unat a \<noteq> fp"
    by blast
  from verify_transfer_instruction_True [OF vti]
  have four: "4 \<le> length (accounts (instructions (decoded_message d) ! 2))"
    by blast
  from len have "instructions (decoded_message d) ! 2 \<in> set (instructions (decoded_message d))"
    by simp
  moreover from four have
    "accounts (instructions (decoded_message d) ! 2) ! 3
       \<in> set (accounts (instructions (decoded_message d) ! 2))"
    by simp
  ultimately have
    "unat (accounts (instructions (decoded_message d) ! 2) ! 3)
       < length (account_keys (decoded_message d)) \<and>
     account_keys (decoded_message d) ! unat (accounts (instructions (decoded_message d) ! 2) ! 3)
       \<noteq> fp"
    using iso by blast
  with d fp len four show "\<exists>d fp.
         decode_payment L h = Inr d \<and>
         pubkey_from_string (fee_payer (extra R)) = Inr fp \<and>
         length (instructions (decoded_message d)) = 3 \<and>
         4 \<le> length (accounts (instructions (decoded_message d) ! 2)) \<and>
         unat (accounts (instructions (decoded_message d) ! 2) ! 3)
           < length (account_keys (decoded_message d)) \<and>
         account_keys (decoded_message d)
           ! unat (accounts (instructions (decoded_message d) ! 2) ! 3) \<noteq> fp"
    by blast
next
  fix h' d hdr
  assume "decode_payment L h = Inr d \<and> decode_payment L h' = Inr (with_header hdr d)"
  then show "verify L cfg h' R = verify L cfg h R"
    by (simp add: verify_def verify_try_decode verify_decoded_with_header)
qed

theorem transfer_authority_not_fee_payer_witness:
  "is_valid (verify ref_lib default_settings happy_header example_requirements) \<and>
   (\<exists>d fp.
     decode_payment ref_lib happy_header = Inr d \<and>
     pubkey_from_string (fee_payer (extra example_requirements)) = Inr fp \<and>
     length (instructions (decoded_message d)) = 3 \<and>
     4 \<le> length (accounts (instructions (decoded_message d) ! 2)) \<and>
     unat (accounts (instructions (decoded_message d) ! 2) ! 3)
       < length (account_keys (decoded_message d)) \<and>
     account_keys (decoded_message d) ! unat (accounts (instructions (decoded_message d) ! 2) ! 3)
       \<noteq> fp) \<and>
   decode_payment ref_lib happy_header = Inr (DecodedLegacy happy_tx) \<and>
   decode_payment ref_lib one_signer_header =
     Inr (with_header \<lparr>num_required_signatures = 1, num_readonly_signed_accounts = 0,
                        num_readonly_unsigned_accounts = 3\<rparr> (DecodedLegacy happy_tx)) \<and>
   num_required_signatures (header (message happy_tx)) = 2 \<and>
   verify ref_lib default_settings one_signer_header example_requirements =
     verify ref_lib default_settings happy_header example_requirements"
proof -
  let ?hdr = "\<lparr>num_required_signatures = 1, num_readonly_signed_accounts = 0,
               num_readonly_unsigned_accounts = 3\<rparr>"
  have relabelled: "decode_payment ref_lib one_signer_header =
      Inr (with_header ?hdr (DecodedLegacy happy_tx))"
    by (simp add: one_signer_decode one_signer_tx_def one_signer_message_def happy_tx_def
          happy_message_def)
  have two: "num_required_signatures (header (message happy_tx)) = 2"
    by (simp add: happy_tx_def happy_message_def)
  have accepted: "is_valid (verify ref_lib default_settings happy_header example_requirements)"
    by (simp add: happy_valid valid_def)
  note both = transfer_authority_not_fee_payer
                [of ref_lib default_settings happy_header example_requirements]
  from both accepted have authority: "\<exists>d fp.
     decode_payment ref_lib happy_header = Inr d \<and>
     pubkey_from_string (fee_payer (extra example_requirements)) = Inr fp \<and>
     length (instructions (decoded_message d)) = 3 \<and>
     4 \<le> length (accounts (instructions (decoded_message d) ! 2)) \<and>
     unat (accounts (instructions (decoded_message d) ! 2) ! 3)
       < length (account_keys (decoded_message d)) \<and>
     account_keys (decoded_message d) ! unat (accounts (instructions (decoded_message d) ! 2) ! 3)
       \<noteq> fp"
    by blast
  from both happy_decode relabelled have same:
    "verify ref_lib default_settings one_signer_header example_requirements =
       verify ref_lib default_settings happy_header example_requirements"
    by blast
  show ?thesis
    by (intro conjI accepted authority happy_decode relabelled two same)
qed

text \<open>
  C2 as stated fails: \<open>verify\<close> accepts a payment with three required signatures whose
  \<open>accountKeys[1]\<close> is not the account at the fourth index of the transfer.
\<close>

theorem signer_count_counterexample:
  "is_valid (verify ref_lib default_settings other_payer_header example_requirements) \<and>
   decode_payment ref_lib other_payer_header = Inr (DecodedLegacy other_payer_tx) \<and>
   unat (num_required_signatures (header (message other_payer_tx))) = 3 \<and>
   account_keys (message other_payer_tx) ! 1 = bob_key \<and>
   account_keys (message other_payer_tx)
     ! unat (accounts (instructions (message other_payer_tx) ! 2) ! 3) = carol_key \<and>
   bob_key \<noteq> carol_key"
  by (simp add: other_payer_valid valid_def other_payer_decode
        other_payer_tx_def other_payer_message_def bob_key_def carol_key_def)

text \<open>
  C3. If \<open>verify\<close> answers valid, the message has three instructions and every account
  index of every instruction names an account key of the transaction that is not the
  fee payer of the requirement.
\<close>

theorem fee_payer_isolation:
  assumes "is_valid (verify L cfg h R)"
  shows "\<exists>d fp.
     decode_payment L h = Inr d \<and>
     pubkey_from_string (fee_payer (extra R)) = Inr fp \<and>
     length (instructions (decoded_message d)) = 3 \<and>
     (\<forall>ix \<in> set (instructions (decoded_message d)). \<forall>a \<in> set (accounts ix).
        unat a < length (account_keys (decoded_message d)) \<and>
        account_keys (decoded_message d) ! unat a \<noteq> fp)"
  using verify_accepts [OF assms] by blast

theorem fee_payer_isolation_witness:
  "is_valid (verify ref_lib default_settings happy_header example_requirements) \<and>
   (\<exists>d fp.
     decode_payment ref_lib happy_header = Inr d \<and>
     pubkey_from_string (fee_payer (extra example_requirements)) = Inr fp \<and>
     length (instructions (decoded_message d)) = 3 \<and>
     (\<forall>ix \<in> set (instructions (decoded_message d)). \<forall>a \<in> set (accounts ix).
        unat a < length (account_keys (decoded_message d)) \<and>
        account_keys (decoded_message d) ! unat a \<noteq> fp))"
  using fee_payer_isolation [of ref_lib default_settings happy_header example_requirements]
  by (simp add: happy_valid valid_def)

text \<open>
  C4 (the code at a version-0 transaction). The intended payment sent as a version-0
  transaction passes \<open>verify\<close>, and \<open>settle\<close>, once the node has answered the request for
  a block hash, submits it with the two signatures it came with, the facilitator's slot
  0 still empty, and a third signature appended, made over the hash of the message and
  not over its bytes. This holds whatever the hash and the signature functions compute
  and whatever the node answers to the submission.
\<close>

theorem versioned_settle_appends_signature:
  "is_valid (verify ref_lib (facilitator_settings example_facilitator) versioned_header
               example_requirements) \<and>
   decode_payment ref_lib versioned_header = Inr (DecodedVersioned versioned_tx) \<and>
   account_keys versioned_message ! 0 = pubkey example_keypair \<and>
   length (vsignatures versioned_tx) = 2 \<and>
   vsignatures versioned_tx ! 0 = replicate 64 0 \<and>
   snd (settle ref_lib C \<lparr>get_latest_blockhash = Inr latest, send_transaction = send\<rparr>
          example_facilitator versioned_header example_requirements) =
     [GetLatestBlockhash,
      SendTransaction (DecodedVersioned
        \<lparr>vsignatures =
           vsignatures versioned_tx @
           [sign_message C example_keypair (message_hash C (V0Message versioned_message))],
         vmessage = V0Message versioned_message\<rparr>)]"
proof -
  have ok: "is_valid (verify ref_lib (facilitator_settings example_facilitator)
                        versioned_header example_requirements)"
    by (simp add: example_facilitator_def versioned_valid valid_def)
  have kp: "facilitator_fee_payer example_facilitator = Some example_keypair"
    by (simp add: example_facilitator_def)
  have slot: "account_keys versioned_message ! 0 = pubkey example_keypair"
    by (simp add: versioned_message_def example_keypair_def)
  have sigs: "length (vsignatures versioned_tx) = 2 \<and>
              vsignatures versioned_tx ! 0 = replicate 64 0"
    by (simp add: versioned_tx_def)
  have "snd (settle ref_lib C \<lparr>get_latest_blockhash = Inr latest, send_transaction = send\<rparr>
          example_facilitator versioned_header example_requirements) =
     [GetLatestBlockhash,
      SendTransaction (DecodedVersioned
        \<lparr>vsignatures =
           vsignatures versioned_tx @
           [sign_message C example_keypair (message_hash C (V0Message versioned_message))],
         vmessage = V0Message versioned_message\<rparr>)]"
    by (cases "send (DecodedVersioned
        \<lparr>vsignatures =
           vsignatures versioned_tx @
           [sign_message C example_keypair (message_hash C (V0Message versioned_message))],
         vmessage = V0Message versioned_message\<rparr>)")
       (simp_all add: settle_valid [OF ok kp versioned_decode] submit_def Let_def
          versioned_tx_def)
  with ok slot sigs versioned_decode show ?thesis
    by blast
qed

text \<open>
  C5 (the code at two price instructions). \<open>verify\<close> accepts a payment whose first two
  instructions both carry discriminator 3, the first with a compute-unit price of
  1000000 under a limit of 5.
\<close>

theorem two_price_instructions_accepted:
  "verify ref_lib default_settings two_prices_header example_requirements = valid \<and>
   decode_payment ref_lib two_prices_header = Inr (DecodedLegacy two_prices_tx) \<and>
   map (\<lambda>ix. unat (data ix ! 0)) (instructions (message two_prices_tx)) = [3, 3, 12] \<and>
   unpack_u64_le (slice (data (instructions (message two_prices_tx) ! 0)) 1 9) = Inr 1000000 \<and>
   max_compute_unit_price default_settings = 5"
proof -
  have "max_compute_unit_price default_settings = 5"
    by (simp add: default_settings_def)
  then show ?thesis
    by (simp add: two_prices_valid two_prices_decode two_prices_tx_def two_prices_message_def
          unpack_u64_le_def slice_def)
qed

text \<open>
  C6 (as amended). If \<open>verify\<close> answers valid, the little-endian value of bytes 1 to 8
  of the data of instruction 2 is the integer value of \<open>maxAmountRequired\<close>. And if a
  payment of a supported format reaches the comparison of the amount (it passes the
  checks before it) with another amount than required, \<open>verify\<close> refuses it with exactly
  the reason \<open>Amount <amount> does not match required <required>\<close>.
\<close>

theorem transfer_amount_exact:
  "(is_valid (verify L cfg h R) \<longrightarrow>
      (\<exists>d amount.
         decode_payment L h = Inr d \<and>
         length (instructions (decoded_message d)) = 3 \<and>
         unpack_u64_le (slice (data (instructions (decoded_message d) ! 2)) 1 9) = Inr amount \<and>
         py_int L (max_amount_required R) = Inr (int amount))) \<and>
   (\<forall>d amount required.
      decode_payment L h = Inr d \<and> supported d \<and>
      reaches_amount_check cfg (instructions (decoded_message d))
        (account_keys (decoded_message d)) \<and>
      unpack_u64_le (slice (data (instructions (decoded_message d) ! 2)) 1 9) = Inr amount \<and>
      py_int L (max_amount_required R) = Inr required \<and>
      int amount \<noteq> required \<longrightarrow>
      verify L cfg h R =
        invalid (Some (''Amount '' @ str_int (int amount) @
                       '' does not match required '' @ str_int required)))"
proof (intro conjI impI allI)
  assume ok: "is_valid (verify L cfg h R)"
  from verify_accepts [OF ok] obtain d tr where
    d: "decode_payment L h = Inr d" and
    len: "length (instructions (decoded_message d)) = 3" and
    vti: "verify_transfer_instruction L cfg (instructions (decoded_message d) ! 2)
            (account_keys (decoded_message d)) R = Inr (True, tr)"
    by blast
  from verify_transfer_instruction_True [OF vti] d len
  show "\<exists>d amount.
         decode_payment L h = Inr d \<and>
         length (instructions (decoded_message d)) = 3 \<and>
         unpack_u64_le (slice (data (instructions (decoded_message d) ! 2)) 1 9) = Inr amount \<and>
         py_int L (max_amount_required R) = Inr (int amount)"
    by blast
next
  fix d amount required
  assume a: "decode_payment L h = Inr d \<and> supported d \<and>
      reaches_amount_check cfg (instructions (decoded_message d))
        (account_keys (decoded_message d)) \<and>
      unpack_u64_le (slice (data (instructions (decoded_message d) ! 2)) 1 9) = Inr amount \<and>
      py_int L (max_amount_required R) = Inr required \<and>
      int amount \<noteq> required"
  then have "verify_message L cfg (instructions (decoded_message d))
               (account_keys (decoded_message d)) R =
     Inr (invalid (Some (''Amount '' @ str_int (int amount) @
                         '' does not match required '' @ str_int required)))"
    by (intro amount_mismatch) simp_all
  with a show "verify L cfg h R =
        invalid (Some (''Amount '' @ str_int (int amount) @
                       '' does not match required '' @ str_int required))"
    by (simp add: verify_supported)
qed

theorem transfer_amount_exact_witness:
  "is_valid (verify ref_lib default_settings happy_header example_requirements) \<and>
   (\<exists>d amount.
      decode_payment ref_lib happy_header = Inr d \<and>
      length (instructions (decoded_message d)) = 3 \<and>
      unpack_u64_le (slice (data (instructions (decoded_message d) ! 2)) 1 9) = Inr amount \<and>
      py_int ref_lib (max_amount_required example_requirements) = Inr (int amount)) \<and>
   decode_payment ref_lib happy_header = Inr (DecodedLegacy happy_tx) \<and>
   supported (DecodedLegacy happy_tx) \<and>
   reaches_amount_check default_settings
     (instructions (decoded_message (DecodedLegacy happy_tx)))
     (account_keys (decoded_message (DecodedLegacy happy_tx))) \<and>
   unpack_u64_le (slice (data (instructions (decoded_message (DecodedLegacy happy_tx)) ! 2)) 1 9) =
     Inr 10000 \<and>
   py_int ref_lib (max_amount_required requirements_9999) = Inr 9999 \<and>
   int 10000 \<noteq> 9999 \<and>
   verify ref_lib default_settings happy_header requirements_9999 =
     invalid (Some ''Amount 10000 does not match required 9999'')"
proof -
  have first: "\<exists>d amount.
      decode_payment ref_lib happy_header = Inr d \<and>
      length (instructions (decoded_message d)) = 3 \<and>
      unpack_u64_le (slice (data (instructions (decoded_message d) ! 2)) 1 9) = Inr amount \<and>
      py_int ref_lib (max_amount_required example_requirements) = Inr (int amount)"
    using transfer_amount_exact [of ref_lib default_settings happy_header example_requirements]
    by (simp add: happy_valid valid_def)
  have second: "verify ref_lib default_settings happy_header requirements_9999 =
      invalid (Some (''Amount '' @ str_int (int 10000) @
                     '' does not match required '' @ str_int 9999))"
    using transfer_amount_exact [of ref_lib default_settings happy_header requirements_9999]
      happy_decode happy_reaches_amount_check happy_amount required_9999
    by (simp del: decoded_message.simps)
  have "str_int (int 10000) = ''10000''" and "str_int 9999 = ''9999''"
    by (simp_all add: str_int_def digit_char_def numeral_recursion)
  with first second show ?thesis
    using happy_decode happy_reaches_amount_check happy_amount required_9999
    by (simp add: happy_valid valid_def del: decoded_message.simps)
qed

text \<open>
  C6 as stated fails in its second half: under a price limit of 0 the intended payment,
  which transfers 10000 units where 9999 are required, is refused for its compute-unit
  price, and the reason does not mention the amount.
\<close>

theorem amount_reason_counterexample:
  "decode_payment ref_lib happy_header = Inr (DecodedLegacy happy_tx) \<and>
   unpack_u64_le (slice (data (instructions (message happy_tx) ! 2)) 1 9) = Inr 10000 \<and>
   py_int ref_lib (max_amount_required requirements_9999) = Inr 9999 \<and>
   verify ref_lib strict_settings happy_header requirements_9999 =
     invalid (Some ''Compute unit price 1 exceeds max 0'') \<and>
   \<not> contains ''Amount 10000 does not match required 9999''
        ''Compute unit price 1 exceeds max 0''"
  using happy_amount
  by (simp add: happy_decode required_9999 strict_price)

text \<open>
  C7 (as amended). If \<open>verify\<close> answers valid, instruction 2 has at least four account
  indices and targets one of the two token programs; the account at its second index is
  the mint of the requirement, and the account at its third index is the address that
  \<open>find_program_address\<close> derives from the seeds \<open>[payTo, token program, mint]\<close> under the
  associated-token program, the token program being the one the instruction targets.
\<close>

theorem transfer_destination_is_token_account:
  assumes "is_valid (verify L cfg h R)"
  shows "\<exists>d token_program mint_key pay_to_key.
     decode_payment L h = Inr d \<and>
     length (instructions (decoded_message d)) = 3 \<and>
     4 \<le> length (accounts (instructions (decoded_message d) ! 2)) \<and>
     list_index (account_keys (decoded_message d))
       (unat (program_id_index (instructions (decoded_message d) ! 2))) = Inr token_program \<and>
     (token_program = SPL_TOKEN_PROGRAM \<or> token_program = TOKEN_2022_PROGRAM) \<and>
     pubkey_from_string (asset R) = Inr mint_key \<and>
     pubkey_from_string (pay_to R) = Inr pay_to_key \<and>
     list_index (account_keys (decoded_message d))
       (unat (accounts (instructions (decoded_message d) ! 2) ! 1)) = Inr mint_key \<and>
     list_index (account_keys (decoded_message d))
       (unat (accounts (instructions (decoded_message d) ! 2) ! 2)) =
       Inr (fst (find_program_address L [pay_to_key, token_program, mint_key]
                   ASSOCIATED_TOKEN_PROGRAM))"
proof -
  from verify_accepts [OF assms] obtain d tr where
    d: "decode_payment L h = Inr d" and
    len: "length (instructions (decoded_message d)) = 3" and
    vti: "verify_transfer_instruction L cfg (instructions (decoded_message d) ! 2)
            (account_keys (decoded_message d)) R = Inr (True, tr)"
    by blast
  from verify_transfer_instruction_True [OF vti] d len show ?thesis
    unfolding get_associated_token_address_def Let_def by blast
qed

theorem transfer_destination_is_token_account_witness:
  "is_valid (verify ref_lib default_settings happy_header example_requirements) \<and>
   (\<exists>d token_program mint_key pay_to_key.
     decode_payment ref_lib happy_header = Inr d \<and>
     length (instructions (decoded_message d)) = 3 \<and>
     4 \<le> length (accounts (instructions (decoded_message d) ! 2)) \<and>
     list_index (account_keys (decoded_message d))
       (unat (program_id_index (instructions (decoded_message d) ! 2))) = Inr token_program \<and>
     (token_program = SPL_TOKEN_PROGRAM \<or> token_program = TOKEN_2022_PROGRAM) \<and>
     pubkey_from_string (asset example_requirements) = Inr mint_key \<and>
     pubkey_from_string (pay_to example_requirements) = Inr pay_to_key \<and>
     list_index (account_keys (decoded_message d))
       (unat (accounts (instructions (decoded_message d) ! 2) ! 1)) = Inr mint_key \<and>
     list_index (account_keys (decoded_message d))
       (unat (accounts (instructions (decoded_message d) ! 2) ! 2)) =
       Inr (fst (find_program_address ref_lib [pay_to_key, token_program, mint_key]
                   ASSOCIATED_TOKEN_PROGRAM)))"
  using transfer_destination_is_token_account
          [of ref_lib default_settings happy_header example_requirements]
  by (simp add: happy_valid valid_def)

text \<open>
  C7 as stated fails: \<open>verify\<close> accepts a payment whose instruction 2 has five account
  indices.
\<close>

theorem account_count_counterexample:
  "is_valid (verify ref_lib default_settings five_accounts_header example_requirements) \<and>
   decode_payment ref_lib five_accounts_header = Inr (DecodedLegacy five_accounts_tx) \<and>
   length (accounts (instructions (message five_accounts_tx) ! 2)) = 5"
  by (simp add: five_accounts_valid valid_def five_accounts_decode five_accounts_tx_def
        five_accounts_message_def)




text \<open>
  C9. If \<open>verify\<close> refuses the payment, \<open>settle\<close> answers without success, with an error
  text and nothing else, and makes no RPC call. With a key pair loaded the error is
  \<open>Verification failed:\<close> followed by the reason \<open>verify\<close> gave.
\<close>

theorem settle_failure_no_chain:
  assumes "\<not> is_valid (verify L (facilitator_settings self) h R)"
  shows "\<exists>text.
     settle L C node self h R =
       (\<lparr>success = False, error = Some text, tx_hash = None, sr_network = None, payer = None\<rparr>,
        []) \<and>
     (facilitator_fee_payer self \<noteq> None \<longrightarrow>
        (\<exists>reason. invalid_reason (verify L (facilitator_settings self) h R) = Some reason \<and>
                  text = ''Verification failed: '' @ reason))"
proof -
  from verify_invalid_reason [OF assms] obtain reason where
    "invalid_reason (verify L (facilitator_settings self) h R) = Some reason"
    by blast
  with assms show ?thesis
    by (cases "facilitator_fee_payer self")
       (simp_all add: settle_def failure_def str_optional_def)
qed

theorem settle_failure_no_chain_witness:
  "\<forall>C node.
     \<not> is_valid (verify ref_lib (facilitator_settings example_facilitator) happy_header
                   requirements_9999) \<and>
     settle ref_lib C node example_facilitator happy_header requirements_9999 =
       (\<lparr>success = False,
         error = Some ''Verification failed: Amount 10000 does not match required 9999'',
         tx_hash = None, sr_network = None, payer = None\<rparr>, [])"
proof (intro allI)
  fix C node
  have bad: "\<not> is_valid (verify ref_lib (facilitator_settings example_facilitator)
                             happy_header requirements_9999)"
    by (simp add: example_facilitator_def wrong_amount invalid_def)
  have "invalid_reason (verify ref_lib (facilitator_settings example_facilitator)
                          happy_header requirements_9999) =
        Some ''Amount 10000 does not match required 9999''"
    by (simp add: example_facilitator_def wrong_amount invalid_def)
  moreover have "facilitator_fee_payer example_facilitator \<noteq> None"
    by (simp add: example_facilitator_def)
  ultimately show
    "\<not> is_valid (verify ref_lib (facilitator_settings example_facilitator) happy_header
                   requirements_9999) \<and>
     settle ref_lib C node example_facilitator happy_header requirements_9999 =
       (\<lparr>success = False,
         error = Some ''Verification failed: Amount 10000 does not match required 9999'',
         tx_hash = None, sr_network = None, payer = None\<rparr>, [])"
    using settle_failure_no_chain [OF bad, of C node] bad by auto
qed

text \<open>
  C10. Two payment headers that decode to transactions with the same message, whatever
  their signatures, get the same answer from \<open>verify\<close> for the same requirement.
\<close>

theorem verify_ignores_signatures:
  assumes "decode_payment L h1 = Inr d1" and "decode_payment L h2 = Inr d2"
    and "drop_signatures d1 = drop_signatures d2"
  shows "verify L cfg h1 R = verify L cfg h2 R"
proof -
  have "verify_decoded L cfg d1 R = verify_decoded L cfg (drop_signatures d1) R"
    by (simp add: verify_decoded_drop_signatures)
  also have "\<dots> = verify_decoded L cfg d2 R"
    using assms(3) by (simp add: verify_decoded_drop_signatures)
  finally show ?thesis
    using assms(1,2) by (simp add: verify_def verify_try_decode)
qed

theorem verify_ignores_signatures_witness:
  "decode_payment ref_lib happy_header = Inr (DecodedLegacy happy_tx) \<and>
   decode_payment ref_lib unsigned_header = Inr (DecodedLegacy unsigned_tx) \<and>
   drop_signatures (DecodedLegacy happy_tx) = drop_signatures (DecodedLegacy unsigned_tx) \<and>
   signatures unsigned_tx = [replicate 64 0, replicate 64 0] \<and>
   signatures happy_tx ! 1 \<noteq> replicate 64 0 \<and>
   verify ref_lib default_settings happy_header example_requirements =
     verify ref_lib default_settings unsigned_header example_requirements"
proof -
  have same: "drop_signatures (DecodedLegacy happy_tx) = drop_signatures (DecodedLegacy unsigned_tx)"
    by (simp add: happy_tx_def unsigned_tx_def happy_message_def unsigned_message_def)
  have "signatures unsigned_tx = [replicate 64 0, replicate 64 0]"
    by (simp add: unsigned_tx_def)
  moreover have "signatures happy_tx ! 1 \<noteq> replicate 64 0"
    by (simp add: happy_tx_def replicate_numeral)
  ultimately show ?thesis
    using same verify_ignores_signatures [OF happy_decode unsigned_decode same]
    by (simp add: happy_decode unsigned_decode)
qed

end
